theory Spec2Isabelle
  imports Main "HOL-Library.Word"
begin

section \<open>Python values\<close>

text \<open>
  A Python \<open>str\<close> is a sequence of Unicode code points, so it is a list of naturals
  (\<open>ustr\<close>); a code point of a real \<open>str\<close> is below \<open>0x110000\<close>. \<open>u\<close> turns an ASCII
  literal of the source into its code points. \<open>bytes\<close> objects are lists of the 8-bit
  type \<open>char\<close>. Strings that \<open>http.client\<close> hands over (header names and values, the
  request path) were decoded from ISO-8859-1, one code point below 256 per byte: they
  are kept as \<open>string\<close>.
\<close>

type_synonym ustr = "nat list"
type_synonym bytes = "char list"

definition u :: "string \<Rightarrow> ustr" where
  "u s = map of_char s"

text \<open>A Python \<open>float\<close> is an IEEE 754 binary64 value, kept as its bit pattern.\<close>

type_synonym pyfloat = "64 word"

text \<open>
  What \<open>json.loads\<close> returns: \<open>None\<close>, \<open>bool\<close>, \<open>int\<close>, \<open>float\<close>, \<open>str\<close>, \<open>list\<close> or
  \<open>dict\<close>. A \<open>dict\<close> is an association list in insertion order; its keys are distinct.
\<close>

datatype json =
    JNull
  | JBool bool
  | JInt int
  | JFloat pyfloat
  | JStr ustr
  | JArr "json list"
  | JObj "(ustr \<times> json) list"

text \<open>Truth value testing (\<open>bool(x)\<close>, \<open>not x\<close>, \<open>x or y\<close>); both float zeros are false.\<close>

fun truthy :: "json \<Rightarrow> bool" where
  "truthy JNull = False"
| "truthy (JBool b) = b"
| "truthy (JInt n) = (n \<noteq> 0)"
| "truthy (JFloat f) = (f \<noteq> 0 \<and> f \<noteq> 0x8000000000000000)"
| "truthy (JStr s) = (s \<noteq> [])"
| "truthy (JArr xs) = (xs \<noteq> [])"
| "truthy (JObj kvs) = (kvs \<noteq> [])"

text \<open>\<open>Optional[str]\<close>: \<open>None\<close> and the empty string are the false values.\<close>

fun truthy_opt :: "ustr option \<Rightarrow> bool" where
  "truthy_opt None = False"
| "truthy_opt (Some s) = (s \<noteq> [])"

text \<open>
  Exceptions: the class and the message. The message is \<open>None\<close> where the text is
  produced inside the standard library and is not modelled.
\<close>

datatype exn_class =
    RuntimeError
  | ValueError
  | JSONDecodeError
  | UnicodeDecodeError
  | UnicodeEncodeError
  | TypeError
  | AttributeError
  | KeyError
  | OSError
  | RequestException
  | BinasciiError

datatype exn = Exn (exn_cls: exn_class) (exn_msg: "ustr option")

text \<open>\<open>except ValueError\<close> also catches the subclasses of \<open>ValueError\<close>.\<close>

fun is_ValueError :: "exn_class \<Rightarrow> bool" where
  "is_ValueError ValueError = True"
| "is_ValueError JSONDecodeError = True"
| "is_ValueError UnicodeDecodeError = True"
| "is_ValueError UnicodeEncodeError = True"
| "is_ValueError BinasciiError = True"
| "is_ValueError _ = False"

section \<open>The standard library, as far as the service uses it\<close>

subsection \<open>\<open>str.lower\<close> on ISO-8859-1 strings\<close>

text \<open>
  On code points below 256, \<open>str.lower\<close> maps \<open>A\<close>..\<open>Z\<close> and the capital letters
  \<open>0xC0\<close>..\<open>0xDE\<close> (but the multiplication sign \<open>0xD7\<close>) to the code point 32 above,
  and leaves every other one as it is.
\<close>

definition lower_char :: "char \<Rightarrow> char" where
  "lower_char c =
     (let n = (of_char c :: nat)
      in if (65 \<le> n \<and> n \<le> 90) \<or> (192 \<le> n \<and> n \<le> 222 \<and> n \<noteq> 215)
         then char_of (n + 32) else c)"

definition py_lower :: "string \<Rightarrow> string" where
  "py_lower s = map lower_char s"

subsection \<open>\<open>int(s)\<close> for a string\<close>

text \<open>
  \<open>int\<close> skips white space at both ends, reads an optional sign and then decimal
  digits, where single underscores may stand between digits. On an ISO-8859-1 string
  the white space it skips is tab, line feed, vertical tab, form feed, carriage return,
  space, and the code points \<open>0x85\<close> and \<open>0xA0\<close>. Anything else raises \<open>ValueError\<close>,
  and so does a literal of more than \<open>sys.get_int_max_str_digits()\<close> digits (4300
  unless configured; 0 switches the limit off, and no limit applies up to 640 digits).
\<close>

definition int_space :: "char \<Rightarrow> bool" where
  "int_space c = (let n = (of_char c :: nat) in (9 \<le> n \<and> n \<le> 13) \<or> n = 32 \<or> n = 133 \<or> n = 160)"

definition is_digit :: "char \<Rightarrow> bool" where
  "is_digit c = (let n = (of_char c :: nat) in 48 \<le> n \<and> n \<le> 57)"

definition digit_val :: "char \<Rightarrow> nat" where
  "digit_val c = of_char c - 48"

text \<open>
  The scan over digits and underscores: \<open>prev\<close> says that the last character was an
  underscore, \<open>acc\<close> holds the digits read. \<open>None\<close> is a doubled or trailing underscore.
\<close>

fun scan_digits :: "bool \<Rightarrow> nat list \<Rightarrow> string \<Rightarrow> (nat list \<times> string) option" where
  "scan_digits prev acc [] = (if prev then None else Some (acc, []))"
| "scan_digits prev acc (c # cs) =
     (if is_digit c then scan_digits False (acc @ [digit_val c]) cs
      else if c = CHR ''_'' then (if prev then None else scan_digits True acc cs)
      else if prev then None else Some (acc, c # cs))"

definition digits_value :: "nat list \<Rightarrow> int" where
  "digits_value ds = foldl (\<lambda>a d. 10 * a + int d) 0 ds"

definition invalid_literal :: exn where
  "invalid_literal = Exn ValueError None"

definition py_int :: "nat \<Rightarrow> string \<Rightarrow> exn + int" where
  "py_int max_digits s =
     (let s1 = dropWhile int_space s;
          neg = (s1 \<noteq> [] \<and> hd s1 = CHR ''-'');
          s2 = (if s1 \<noteq> [] \<and> (hd s1 = CHR ''+'' \<or> hd s1 = CHR ''-'') then tl s1 else s1)
      in if s2 \<noteq> [] \<and> hd s2 = CHR ''_'' then Inl invalid_literal
         else case scan_digits False [] s2 of
           None \<Rightarrow> Inl invalid_literal
         | Some (ds, rest) \<Rightarrow>
             if ds = [] then Inl invalid_literal
             else if 640 < length ds \<and> 0 < max_digits \<and> max_digits < length ds
               then Inl invalid_literal
             else if dropWhile int_space rest \<noteq> [] then Inl invalid_literal
             else Inr (if neg then - digits_value ds else digits_value ds))"

subsection \<open>\<open>str(n)\<close> for an integer\<close>

fun digits_of :: "nat \<Rightarrow> ustr" where
  "digits_of n = (if n < 10 then [48 + n] else digits_of (n div 10) @ [48 + n mod 10])"

declare digits_of.simps [simp del]

definition str_int :: "int \<Rightarrow> ustr" where
  "str_int i = (if i < 0 then 45 # digits_of (nat (- i)) else digits_of (nat i))"

subsection \<open>Operations on JSON values\<close>

text \<open>\<open>d.get(k)\<close>: \<open>None\<close> for a missing key; only a \<open>dict\<close> has the method.\<close>

fun py_get :: "json \<Rightarrow> ustr \<Rightarrow> exn + json" where
  "py_get (JObj kvs) k = Inr (case map_of kvs k of None \<Rightarrow> JNull | Some v \<Rightarrow> v)"
| "py_get _ k = Inl (Exn AttributeError None)"

text \<open>\<open>d.setdefault(k, v)\<close> on a \<open>dict\<close>: a key that is present keeps its value.\<close>

definition setdefault :: "(ustr \<times> json) list \<Rightarrow> ustr \<Rightarrow> json \<Rightarrow> (ustr \<times> json) list" where
  "setdefault kvs k v = (case map_of kvs k of None \<Rightarrow> kvs @ [(k, v)] | Some _ \<Rightarrow> kvs)"

text \<open>\<open>needle in s\<close> for two strings: \<open>needle\<close> occurs in \<open>s\<close> as a substring.\<close>

fun substring :: "ustr \<Rightarrow> ustr \<Rightarrow> bool" where
  "substring k [] = (k = [])"
| "substring k (c # cs) = (take (length k) (c # cs) = k \<or> substring k cs)"

text \<open>
  \<open>k in x\<close> for a string \<open>k\<close>: a key of a \<open>dict\<close>, an element of a \<open>list\<close>, a substring of
  a \<open>str\<close>; \<open>TypeError\<close> on the values that are no containers.
\<close>

fun py_contains :: "ustr \<Rightarrow> json \<Rightarrow> exn + bool" where
  "py_contains k (JObj kvs) = Inr (map_of kvs k \<noteq> None)"
| "py_contains k (JArr xs) = Inr (JStr k \<in> set xs)"
| "py_contains k (JStr s) = Inr (substring k s)"
| "py_contains k _ = Inl (Exn TypeError None)"

text \<open>
  \<open>x[k]\<close> for a string \<open>k\<close>: the value of a \<open>dict\<close> (\<open>KeyError\<close> when missing);
  \<open>TypeError\<close> on every other value (a \<open>list\<close> or \<open>str\<close> wants an integer index).
\<close>

fun py_getitem :: "json \<Rightarrow> ustr \<Rightarrow> exn + json" where
  "py_getitem (JObj kvs) k =
     (case map_of kvs k of None \<Rightarrow> Inl (Exn KeyError None) | Some v \<Rightarrow> Inr v)"
| "py_getitem _ k = Inl (Exn TypeError None)"

subsection \<open>The UTF-8 and ASCII codecs\<close>

text \<open>
  \<open>s.encode("utf-8")\<close> raises \<open>UnicodeEncodeError\<close> on a surrogate code point
  (\<open>0xD800\<close>..\<open>0xDFFF\<close>), which a \<open>str\<close> may hold; \<open>None\<close> is that error.
\<close>

definition is_surrogate :: "nat \<Rightarrow> bool" where
  "is_surrogate c = (0xD800 \<le> c \<and> c \<le> 0xDFFF)"

definition encode_cp :: "nat \<Rightarrow> bytes option" where
  "encode_cp c =
     (if c < 0x80 then Some [char_of c]
      else if c < 0x800 then Some [char_of (0xC0 + c div 64), char_of (0x80 + c mod 64)]
      else if c < 0x10000 then
        (if is_surrogate c then None
         else Some [char_of (0xE0 + c div 4096), char_of (0x80 + c div 64 mod 64),
                    char_of (0x80 + c mod 64)])
      else if c < 0x110000 then
        Some [char_of (0xF0 + c div 262144), char_of (0x80 + c div 4096 mod 64),
              char_of (0x80 + c div 64 mod 64), char_of (0x80 + c mod 64)]
      else None)"

fun utf8_encode :: "ustr \<Rightarrow> bytes option" where
  "utf8_encode [] = Some []"
| "utf8_encode (c # cs) =
     (case encode_cp c of
        None \<Rightarrow> None
      | Some bs \<Rightarrow> (case utf8_encode cs of None \<Rightarrow> None | Some r \<Rightarrow> Some (bs @ r)))"

text \<open>
  \<open>b.decode("utf-8")\<close> accepts the well-formed sequences only: no stray or missing
  continuation byte, no overlong form, no surrogate, nothing above \<open>0x10FFFF\<close>. \<open>None\<close>
  is \<open>UnicodeDecodeError\<close>.
\<close>

definition cont :: "char \<Rightarrow> bool" where
  "cont b = (0x80 \<le> (of_char b :: nat) \<and> (of_char b :: nat) < 0xC0)"

definition cbits :: "char \<Rightarrow> nat" where
  "cbits b = of_char b - 0x80"

fun utf8_decode :: "bytes \<Rightarrow> ustr option" where
  "utf8_decode [] = Some []"
| "utf8_decode (b # bs) =
     (let n = (of_char b :: nat)
      in if n < 0x80 then map_option ((#) n) (utf8_decode bs)
         else if 0xC0 \<le> n \<and> n < 0xE0 then
           (case bs of
              b1 # r \<Rightarrow>
                (let c = (n - 0xC0) * 64 + cbits b1
                 in if cont b1 \<and> 0x80 \<le> c then map_option ((#) c) (utf8_decode r) else None)
            | _ \<Rightarrow> None)
         else if 0xE0 \<le> n \<and> n < 0xF0 then
           (case bs of
              b1 # b2 # r \<Rightarrow>
                (let c = (n - 0xE0) * 4096 + cbits b1 * 64 + cbits b2
                 in if cont b1 \<and> cont b2 \<and> 0x800 \<le> c \<and> \<not> is_surrogate c
                    then map_option ((#) c) (utf8_decode r) else None)
            | _ \<Rightarrow> None)
         else if 0xF0 \<le> n \<and> n < 0xF8 then
           (case bs of
              b1 # b2 # b3 # r \<Rightarrow>
                (let c = (n - 0xF0) * 262144 + cbits b1 * 4096 + cbits b2 * 64 + cbits b3
                 in if cont b1 \<and> cont b2 \<and> cont b3 \<and> 0x10000 \<le> c \<and> c < 0x110000
                    then map_option ((#) c) (utf8_decode r) else None)
            | _ \<Rightarrow> None)
         else None)"

text \<open>The ASCII codec raises on a code point or byte of 128 or more.\<close>

definition ascii_encode :: "ustr \<Rightarrow> bytes option" where
  "ascii_encode s = (if list_all (\<lambda>c. c < 128) s then Some (map char_of s) else None)"

definition ascii_decode :: "bytes \<Rightarrow> ustr option" where
  "ascii_decode bs =
     (if list_all (\<lambda>b. (of_char b :: nat) < 128) bs then Some (map of_char bs) else None)"

subsection \<open>\<open>base64.b64encode\<close> and \<open>base64.b64decode\<close>\<close>

text \<open>The alphabet of RFC 4648: \<open>A\<close>..\<open>Z\<close>, \<open>a\<close>..\<open>z\<close>, \<open>0\<close>..\<open>9\<close>, \<open>+\<close>, \<open>/\<close>.\<close>

definition b64_char :: "nat \<Rightarrow> char" where
  "b64_char i =
     (if i < 26 then char_of (65 + i)
      else if i < 52 then char_of (71 + i)
      else if i < 62 then char_of (i - 4)
      else if i = 62 then CHR ''+'' else CHR ''/'')"

definition b64_val :: "char \<Rightarrow> nat option" where
  "b64_val c =
     (let n = (of_char c :: nat)
      in if 65 \<le> n \<and> n \<le> 90 then Some (n - 65)
         else if 97 \<le> n \<and> n \<le> 122 then Some (n - 71)
         else if 48 \<le> n \<and> n \<le> 57 then Some (n + 4)
         else if c = CHR ''+'' then Some 62
         else if c = CHR ''/'' then Some 63
         else None)"

text \<open>Three bytes give four characters; a last group of one or two bytes is padded.\<close>

fun b64encode :: "bytes \<Rightarrow> bytes" where
  "b64encode [] = []"
| "b64encode [a] =
     (let x = (of_char a :: nat)
      in [b64_char (x div 4), b64_char (x mod 4 * 16), CHR ''='', CHR ''=''])"
| "b64encode [a, b] =
     (let x = (of_char a :: nat); y = (of_char b :: nat)
      in [b64_char (x div 4), b64_char (x mod 4 * 16 + y div 16), b64_char (y mod 16 * 4),
          CHR ''=''])"
| "b64encode (a # b # c # r) =
     (let x = (of_char a :: nat); y = (of_char b :: nat); z = (of_char c :: nat)
      in [b64_char (x div 4), b64_char (x mod 4 * 16 + y div 16),
          b64_char (y mod 16 * 4 + z div 64), b64_char (z mod 64)]) @ b64encode r"

text \<open>
  \<open>b64decode\<close> without validation is \<open>binascii.a2b_base64\<close>: a loop over the input
  with the position in the current group of four (\<open>quad_pos\<close>), the bits left over from
  the last character (\<open>leftchar\<close>) and the count of padding characters seen in a row
  (\<open>pads\<close>). A character outside the alphabet is skipped; padding that completes a
  group ends the decoding; input that ends inside a group raises \<open>binascii.Error\<close>.
  The shifts and ors of the C code combine disjoint bits, so they are sums here.
\<close>

fun a2b_loop :: "nat \<Rightarrow> nat \<Rightarrow> nat \<Rightarrow> bytes \<Rightarrow> bytes \<Rightarrow> exn + bytes" where
  "a2b_loop quad_pos leftchar pads out [] =
     (if quad_pos \<noteq> 0 then Inl (Exn BinasciiError None) else Inr out)"
| "a2b_loop quad_pos leftchar pads out (c # cs) =
     (if c = CHR ''='' then
        (if 2 \<le> quad_pos \<and> 4 \<le> quad_pos + (pads + 1) then Inr out
         else a2b_loop quad_pos leftchar (if 2 \<le> quad_pos then pads + 1 else pads) out cs)
      else case b64_val c of
        None \<Rightarrow> a2b_loop quad_pos leftchar pads out cs
      | Some v \<Rightarrow>
          if quad_pos = 0 then a2b_loop 1 v 0 out cs
          else if quad_pos = 1 then
            a2b_loop 2 (v mod 16) 0 (out @ [char_of (leftchar * 4 + v div 16)]) cs
          else if quad_pos = 2 then
            a2b_loop 3 (v mod 4) 0 (out @ [char_of (leftchar * 16 + v div 4)]) cs
          else a2b_loop 0 0 0 (out @ [char_of (leftchar * 64 + v)]) cs)"

definition b64decode :: "bytes \<Rightarrow> exn + bytes" where
  "b64decode s = a2b_loop 0 0 0 [] s"

section \<open>The service\<close>

record RateLimitInfo =
  remaining_requests :: "int option"
  remaining_tokens :: "int option"
  reset_timestamp :: "pyfloat option"
  model :: "json option"

text \<open>\<open>RateLimitInfo()\<close>: every field defaults to \<open>None\<close>.\<close>

definition RateLimitInfo_init :: "json option \<Rightarrow> RateLimitInfo" where
  "RateLimitInfo_init m =
     \<lparr>remaining_requests = None, remaining_tokens = None, reset_timestamp = None, model = m\<rparr>"

text \<open>
  The fields of \<open>ServiceConfig\<close> have their declared types, but \<open>profiles\<close>: the
  \<open>/config\<close> handler stores whatever JSON value the request carries.
\<close>

record ServiceConfig =
  api_key :: "ustr option"
  organization :: "ustr option"
  default_model :: ustr
  profiles :: json
  host :: ustr
  port :: int
  tls_enabled :: bool
  consent_acknowledged :: bool

text \<open>\<open>GPTService\<close>: the configuration and the last rate-limit snapshot.\<close>

record service =
  config :: ServiceConfig
  rate_limit :: RateLimitInfo

definition msg_no_key :: ustr where
  "msg_no_key = u ''API key not configured. '' @
     [0x417, 0x430, 0x43F, 0x443, 0x441, 0x442, 0x438, 0x442, 0x435, 0x20,
      0x441, 0x43A, 0x440, 0x438, 0x43F, 0x442, 0x20, 0x441, 0x20,
      0x444, 0x43B, 0x430, 0x433, 0x43E, 0x43C] @ u '' --setup.''"

definition msg_no_consent :: ustr where
  "msg_no_consent = u ''Consent not acknowledged. Run with --setup to accept.''"

text \<open>
  \<open>ensure_ready\<close> returns nothing or raises \<open>RuntimeError(m)\<close>: \<open>Inl m\<close> is the raise.
\<close>

definition ensure_ready :: "service \<Rightarrow> ustr + unit" where
  "ensure_ready s =
     (if \<not> truthy_opt (api_key (config s)) then Inl msg_no_key
      else if \<not> consent_acknowledged (config s) then Inl msg_no_consent
      else Inr ())"

subsection \<open>The environment\<close>

text \<open>
  The request sent with \<open>requests.post\<close> and the response it returns. \<open>resp_json\<close> is
  what \<open>response.json()\<close> gives for the body: the parsed value, or the exception of a
  body that is no JSON text.
\<close>

record out_request =
  out_url :: ustr
  out_headers :: "(ustr \<times> ustr) list"
  out_json :: json
  out_timeout :: int

record upstream_response =
  status_code :: int
  resp_text :: ustr
  resp_headers :: "(string \<times> string) list"
  resp_json :: "exn + json"

text \<open>
  What the service does not compute itself is a parameter:
  \<^item> \<open>requests_post\<close>: the network call, returning a response or raising;
  \<^item> \<open>json_loads\<close>: \<open>json.loads\<close> on the decoded request body;
  \<^item> \<open>py_repr\<close>: \<open>str(x)\<close> of a JSON value that is not a string;
  \<^item> \<open>open_config\<close>: creating the directory and opening the file for writing
    (\<open>Some e\<close> raises \<open>e\<close>);
  \<^item> \<open>fh_write\<close>: serialising the dictionary and writing the text;
  \<^item> \<open>py_float\<close>: \<open>float(s)\<close>, \<open>None\<close> being the \<open>ValueError\<close> of a string that is no
    number (the only way \<open>float\<close> fails on a string);
  \<^item> \<open>time_plus\<close>: \<open>time.time() + x\<close>;
  \<^item> \<open>int_max_str_digits\<close>: \<open>sys.get_int_max_str_digits()\<close>.
\<close>

record env =
  requests_post :: "out_request \<Rightarrow> exn + upstream_response"
  json_loads :: "ustr \<Rightarrow> exn + json"
  py_repr :: "json \<Rightarrow> ustr"
  open_config :: "exn option"
  fh_write :: "json \<Rightarrow> exn option"
  py_float :: "string \<Rightarrow> pyfloat option"
  time_plus :: "pyfloat \<Rightarrow> pyfloat"
  int_max_str_digits :: nat

subsection \<open>\<open>GPTService\<close>\<close>

text \<open>
  \<open>try: rl.f = int(value) except ValueError: rl.f = None\<close>. An exception of another
  class would leave the \<open>try\<close> statement.
\<close>

definition try_int :: "env \<Rightarrow> string \<Rightarrow> exn + int option" where
  "try_int E v =
     (case py_int (int_max_str_digits E) v of
        Inr n \<Rightarrow> Inr (Some n)
      | Inl e \<Rightarrow> if is_ValueError (exn_cls e) then Inr None else Inl e)"

definition try_reset :: "env \<Rightarrow> string \<Rightarrow> pyfloat option" where
  "try_reset E v = (case py_float E v of Some f \<Rightarrow> Some (time_plus E f) | None \<Rightarrow> None)"

text \<open>The body of the loop of \<open>update_rate_limit\<close>, for one header.\<close>

definition rl_step :: "env \<Rightarrow> string \<times> string \<Rightarrow> RateLimitInfo \<Rightarrow> exn + RateLimitInfo" where
  "rl_step E kv rl =
     (let key_lower = py_lower (fst kv); v = snd kv
      in if key_lower = ''x-ratelimit-remaining-requests'' then
           (case try_int E v of Inl e \<Rightarrow> Inl e
            | Inr r \<Rightarrow> Inr (rl\<lparr>remaining_requests := r\<rparr>))
         else if key_lower = ''x-ratelimit-remaining-tokens'' then
           (case try_int E v of Inl e \<Rightarrow> Inl e
            | Inr r \<Rightarrow> Inr (rl\<lparr>remaining_tokens := r\<rparr>))
         else if key_lower = ''x-ratelimit-reset-requests'' then
           Inr (rl\<lparr>reset_timestamp := try_reset E v\<rparr>)
         else Inr rl)"

fun rl_loop :: "env \<Rightarrow> (string \<times> string) list \<Rightarrow> RateLimitInfo \<Rightarrow> exn + RateLimitInfo" where
  "rl_loop E [] rl = Inr rl"
| "rl_loop E (kv # kvs) rl =
     (case rl_step E kv rl of Inl e \<Rightarrow> Inl e | Inr rl' \<Rightarrow> rl_loop E kvs rl')"

definition update_rate_limit ::
    "env \<Rightarrow> (string \<times> string) list \<Rightarrow> json \<Rightarrow> service \<Rightarrow> exn + service" where
  "update_rate_limit E headers m s =
     (case rl_loop E headers (RateLimitInfo_init (Some m)) of
        Inl e \<Rightarrow> Inl e
      | Inr rl \<Rightarrow> Inr (s\<lparr>rate_limit := rl\<rparr>))"

text \<open>\<open>get_rate_limit\<close> builds a copy, field by field.\<close>

definition get_rate_limit :: "service \<Rightarrow> RateLimitInfo" where
  "get_rate_limit s =
     \<lparr>remaining_requests = remaining_requests (rate_limit s),
      remaining_tokens = remaining_tokens (rate_limit s),
      reset_timestamp = reset_timestamp (rate_limit s),
      model = model (rate_limit s)\<rparr>"

definition OPENAI_API_BASE :: ustr where
  "OPENAI_API_BASE = u ''https://api.openai.com/v1''"

text \<open>The message of the error raised on a status of 400 or more.\<close>

definition openai_error :: "int \<Rightarrow> ustr \<Rightarrow> ustr" where
  "openai_error code txt = u ''OpenAI error '' @ str_int code @ u '': '' @ txt"

text \<open>\<open>payload.get("model") or self.config.default_model\<close>, given what \<open>get\<close> returned.\<close>

definition effective_model :: "json \<Rightarrow> service \<Rightarrow> json" where
  "effective_model got s = (if truthy got then got else JStr (default_model (config s)))"

text \<open>
  The request that \<open>call_openai\<close> sends for a payload: the payload after
  \<open>setdefault("model", model)\<close>, the headers with the key and, if set, the organization.
\<close>

definition chat_request :: "json \<Rightarrow> json \<Rightarrow> service \<Rightarrow> out_request" where
  "chat_request payload mdl s =
     \<lparr>out_url = OPENAI_API_BASE @ u ''/chat/completions'',
      out_headers =
        [(u ''Authorization'', u ''Bearer '' @ the (api_key (config s))),
         (u ''Content-Type'', u ''application/json'')]
        @ (if truthy_opt (organization (config s))
           then [(u ''OpenAI-Organization'', the (organization (config s)))]
           else []),
      out_json = (case payload of JObj kvs \<Rightarrow> JObj (setdefault kvs (u ''model'') mdl)
                  | _ \<Rightarrow> payload),
      out_timeout = 90\<rparr>"

text \<open>
  \<open>call_openai\<close> returns the result or the exception, the service after the call, and
  the requests it sent upstream, in order.
\<close>

definition call_openai ::
    "env \<Rightarrow> json \<Rightarrow> service \<Rightarrow> (exn + json) \<times> service \<times> out_request list" where
  "call_openai E payload s =
     (case ensure_ready s of
        Inl m \<Rightarrow> (Inl (Exn RuntimeError (Some m)), s, [])
      | Inr _ \<Rightarrow>
         (case py_get payload (u ''model'') of
            Inl e \<Rightarrow> (Inl e, s, [])
          | Inr got \<Rightarrow>
             (let mdl = effective_model got s;
                  req = chat_request payload mdl s
              in case requests_post E req of
                   Inl e \<Rightarrow> (Inl e, s, [req])
                 | Inr response \<Rightarrow>
                     if status_code response \<ge> 400 then
                       (Inl (Exn RuntimeError
                          (Some (openai_error (status_code response) (resp_text response)))),
                        s, [req])
                     else
                       (case update_rate_limit E (resp_headers response) mdl s of
                          Inl e \<Rightarrow> (Inl e, s, [req])
                        | Inr s' \<Rightarrow> (resp_json response, s', [req])))))"

subsection \<open>\<open>ServiceConfig\<close>: obfuscating the secret and saving\<close>

text \<open>
  \<open>_encode_secret\<close>: \<open>None\<close> for no secret, else the Base64 text of its UTF-8 bytes; the
  exception of a codec leaves the function.
\<close>

definition encode_secret :: "ustr option \<Rightarrow> exn + ustr option" where
  "encode_secret secret =
     (if \<not> truthy_opt secret then Inr None
      else case utf8_encode (the secret) of
        None \<Rightarrow> Inl (Exn UnicodeEncodeError None)
      | Some raw \<Rightarrow>
          (case ascii_decode (b64encode raw) of
             None \<Rightarrow> Inl (Exn UnicodeDecodeError None)
           | Some t \<Rightarrow> Inr (Some t)))"

text \<open>\<open>_decode_secret\<close>: every exception inside becomes \<open>None\<close>.\<close>

definition decode_secret :: "ustr option \<Rightarrow> ustr option" where
  "decode_secret secret =
     (if \<not> truthy_opt secret then None
      else case ascii_encode (the secret) of
        None \<Rightarrow> None
      | Some b \<Rightarrow> (case b64decode b of Inl e \<Rightarrow> None | Inr raw \<Rightarrow> utf8_decode raw))"

definition json_opt_str :: "ustr option \<Rightarrow> json" where
  "json_opt_str x = (case x of None \<Rightarrow> JNull | Some t \<Rightarrow> JStr t)"

text \<open>
  \<open>to_json\<close>, up to the dictionary it builds; turning the dictionary into text is left
  to \<open>fh_write\<close>.
\<close>

definition to_json :: "ServiceConfig \<Rightarrow> exn + json" where
  "to_json cfg =
     (case encode_secret (api_key cfg) of
        Inl e \<Rightarrow> Inl e
      | Inr k \<Rightarrow>
          Inr (JObj
            [(u ''api_key'', json_opt_str k),
             (u ''organization'', json_opt_str (organization cfg)),
             (u ''default_model'', JStr (default_model cfg)),
             (u ''profiles'', profiles cfg),
             (u ''host'', JStr (host cfg)),
             (u ''port'', JInt (port cfg)),
             (u ''tls_enabled'', JBool (tls_enabled cfg)),
             (u ''consent_acknowledged'', JBool (consent_acknowledged cfg))]))"

text \<open>\<open>save\<close>: open the file, build the text, write it.\<close>

definition save :: "env \<Rightarrow> ServiceConfig \<Rightarrow> exn + unit" where
  "save E cfg =
     (case open_config E of
        Some e \<Rightarrow> Inl e
      | None \<Rightarrow>
          (case to_json cfg of
             Inl e \<Rightarrow> Inl e
           | Inr data \<Rightarrow> (case fh_write E data of Some e \<Rightarrow> Inl e | None \<Rightarrow> Inr ())))"

subsection \<open>\<open>RequestHandler\<close>\<close>

text \<open>
  A request: the path, the \<open>Content-Length\<close> header if there is one, and the bytes that
  can be read from the connection after the headers.
\<close>

record http_request =
  req_path :: string
  content_length :: "string option"
  rfile :: bytes

text \<open>
  A response: the status and the body. \<open>Reply_error e\<close> is the body
  \<open>{"error": str(e)}\<close>; the text of a library exception is not modelled.
\<close>

datatype reply = Reply_json json | Reply_error exn

record http_response =
  status :: int
  reply :: reply

definition HTTP_OK :: int where "HTTP_OK = 200"
definition HTTP_BAD_REQUEST :: int where "HTTP_BAD_REQUEST = 400"
definition HTTP_NOT_FOUND :: int where "HTTP_NOT_FOUND = 404"
definition HTTP_INTERNAL_SERVER_ERROR :: int where "HTTP_INTERNAL_SERVER_ERROR = 500"

definition write_json :: "json \<Rightarrow> int \<Rightarrow> http_response" where
  "write_json payload st = \<lparr>status = st, reply = Reply_json payload\<rparr>"

definition write_error :: "exn \<Rightarrow> int \<Rightarrow> http_response" where
  "write_error e st = \<lparr>status = st, reply = Reply_error e\<rparr>"

definition not_found :: http_response where
  "not_found = write_json (JObj [(u ''error'', JStr (u ''Not found''))]) HTTP_NOT_FOUND"

text \<open>\<open>rfile.read(n)\<close>: up to \<open>n\<close> bytes; everything up to the end for a negative \<open>n\<close>.\<close>

definition rfile_read :: "bytes \<Rightarrow> int \<Rightarrow> bytes" where
  "rfile_read stream n = (if n < 0 then stream else take (nat n) stream)"

text \<open>
  The first two lines of \<open>_read_json\<close>: the bytes of the body. \<open>int\<close> may raise on the
  \<open>Content-Length\<close> header; a length of zero or no header gives \<open>b"{}"\<close>.
\<close>

definition request_data :: "env \<Rightarrow> http_request \<Rightarrow> exn + bytes" where
  \<open>request_data E req =
     (case py_int (int_max_str_digits E)
             (case content_length req of None \<Rightarrow> ''0'' | Some v \<Rightarrow> v) of
        Inl e \<Rightarrow> Inl e
      | Inr len \<Rightarrow> Inr (if len \<noteq> 0 then rfile_read (rfile req) len else ''{}''))\<close>

text \<open>
  \<open>_read_json\<close>. Only \<open>json.JSONDecodeError\<close> is turned into the \<open>ValueError\<close> of the
  source; the other exceptions pass.
\<close>

definition read_json :: "env \<Rightarrow> http_request \<Rightarrow> exn + json" where
  "read_json E req =
     (case request_data E req of
        Inl e \<Rightarrow> Inl e
      | Inr data \<Rightarrow>
          (case utf8_decode data of
             None \<Rightarrow> Inl (Exn UnicodeDecodeError None)
           | Some txt \<Rightarrow>
               (case json_loads E txt of
                  Inl e \<Rightarrow>
                    if exn_cls e = JSONDecodeError
                    then Inl (Exn ValueError (Some (u ''Invalid JSON payload'')))
                    else Inl e
                | Inr v \<Rightarrow> Inr v)))"

definition json_opt_int :: "int option \<Rightarrow> json" where
  "json_opt_int x = (case x of None \<Rightarrow> JNull | Some n \<Rightarrow> JInt n)"

definition json_opt_float :: "pyfloat option \<Rightarrow> json" where
  "json_opt_float x = (case x of None \<Rightarrow> JNull | Some f \<Rightarrow> JFloat f)"

definition json_opt :: "json option \<Rightarrow> json" where
  "json_opt x = (case x of None \<Rightarrow> JNull | Some v \<Rightarrow> v)"

definition to_dict :: "RateLimitInfo \<Rightarrow> (ustr \<times> json) list" where
  "to_dict rl =
     [(u ''model'', json_opt (model rl)),
      (u ''remaining_requests'', json_opt_int (remaining_requests rl)),
      (u ''remaining_tokens'', json_opt_int (remaining_tokens rl)),
      (u ''reset_timestamp'', json_opt_float (reset_timestamp rl))]"

text \<open>The payload of \<open>/status\<close>.\<close>

definition status_payload :: "service \<Rightarrow> json" where
  "status_payload s =
     (let cfg = config s;
          ready = (case ensure_ready s of Inr _ \<Rightarrow> True | Inl m \<Rightarrow> False);
          error = (case ensure_ready s of Inr _ \<Rightarrow> JNull | Inl m \<Rightarrow> JStr m);
          rl = get_rate_limit s
      in JObj
           [(u ''ready'', JBool ready),
            (u ''error'', error),
            (u ''host'', JStr (host cfg)),
            (u ''port'', JInt (port cfg)),
            (u ''default_model'', JStr (default_model cfg)),
            (u ''profiles'', profiles cfg),
            (u ''rate_limit'', JObj (to_dict rl))])"

definition do_GET :: "http_request \<Rightarrow> service \<Rightarrow> http_response" where
  "do_GET req s =
     (if req_path req = ''/status'' then write_json (status_payload s) HTTP_OK
      else not_found)"

text \<open>\<open>str(x)\<close> of a JSON value: a string is itself.\<close>

definition py_str :: "env \<Rightarrow> json \<Rightarrow> ustr" where
  "py_str E v = (case v of JStr t \<Rightarrow> t | _ \<Rightarrow> py_repr E v)"

text \<open>
  \<open>if k in payload: cfg.f = conv(payload[k])\<close>: the configuration after the statement,
  or the exception that left it.
\<close>

definition patch_field ::
    "ustr \<Rightarrow> (json \<Rightarrow> ServiceConfig \<Rightarrow> ServiceConfig) \<Rightarrow> json \<Rightarrow> ServiceConfig
      \<Rightarrow> exn + ServiceConfig" where
  "patch_field k assign payload cfg =
     (case py_contains k payload of
        Inl e \<Rightarrow> Inl e
      | Inr present \<Rightarrow>
          if present then
            (case py_getitem payload k of Inl e \<Rightarrow> Inl e | Inr v \<Rightarrow> Inr (assign v cfg))
          else Inr cfg)"

text \<open>
  The \<open>/chat\<close> branch of \<open>do_POST\<close>: the response, the service after the request, and
  the requests sent upstream.
\<close>

definition post_chat :: "env \<Rightarrow> http_request \<Rightarrow> service \<Rightarrow> http_response \<times> service \<times> out_request list" where
  "post_chat E req s =
     (case read_json E req of
        Inl e \<Rightarrow> (write_error e HTTP_INTERNAL_SERVER_ERROR, s, [])
      | Inr payload \<Rightarrow>
          (case call_openai E payload s of
             (Inl e, s', calls) \<Rightarrow> (write_error e HTTP_INTERNAL_SERVER_ERROR, s', calls)
           | (Inr result, s', calls) \<Rightarrow>
               (write_json
                  (JObj [(u ''result'', result),
                         (u ''rate_limit'', JObj (to_dict (get_rate_limit s')))])
                  HTTP_OK,
                s', calls)))"

text \<open>
  The \<open>/config\<close> branch of \<open>do_POST\<close>: the response, the service after the request, and
  the configurations on which \<open>save\<close> was called. The assignments change the
  configuration object of the service in place, so what was assigned before an exception
  stays assigned.
\<close>

definition post_config :: "env \<Rightarrow> http_request \<Rightarrow> service \<Rightarrow> http_response \<times> service \<times> ServiceConfig list" where
  "post_config E req s =
     (case read_json E req of
        Inl e \<Rightarrow> (write_error e HTTP_BAD_REQUEST, s, [])
      | Inr payload \<Rightarrow>
          (case patch_field (u ''default_model'')
                  (\<lambda>v cfg. cfg\<lparr>default_model := py_str E v\<rparr>) payload (config s) of
             Inl e \<Rightarrow> (write_error e HTTP_BAD_REQUEST, s, [])
           | Inr cfg1 \<Rightarrow>
               (case patch_field (u ''profiles'') (\<lambda>v cfg. cfg\<lparr>profiles := v\<rparr>) payload cfg1 of
                  Inl e \<Rightarrow> (write_error e HTTP_BAD_REQUEST, s\<lparr>config := cfg1\<rparr>, [])
                | Inr cfg2 \<Rightarrow>
                    (case patch_field (u ''consent_acknowledged'')
                            (\<lambda>v cfg. cfg\<lparr>consent_acknowledged := truthy v\<rparr>) payload cfg2 of
                       Inl e \<Rightarrow> (write_error e HTTP_BAD_REQUEST, s\<lparr>config := cfg2\<rparr>, [])
                     | Inr cfg3 \<Rightarrow>
                         (case save E cfg3 of
                            Inl e \<Rightarrow>
                              (write_error e HTTP_BAD_REQUEST, s\<lparr>config := cfg3\<rparr>, [cfg3])
                          | Inr _ \<Rightarrow>
                              (write_json (JObj [(u ''status'', JStr (u ''ok''))]) HTTP_OK,
                               s\<lparr>config := cfg3\<rparr>, [cfg3]))))))"

text \<open>
  \<open>do_POST\<close>: the response, the service after the request, the configurations saved
  and the requests sent upstream.
\<close>

definition do_POST ::
    "env \<Rightarrow> http_request \<Rightarrow> service
      \<Rightarrow> http_response \<times> service \<times> ServiceConfig list \<times> out_request list" where
  "do_POST E req s =
     (if req_path req = ''/chat'' then
        (case post_chat E req s of (r, s', calls) \<Rightarrow> (r, s', [], calls))
      else if req_path req = ''/config'' then
        (case post_config E req s of (r, s', saves) \<Rightarrow> (r, s', saves, []))
      else (not_found, s, [], []))"

subsection \<open>Reading the model\<close>

text \<open>
  The value that a header map holds for a name, names compared after lower-casing: the
  value of the last entry whose lower-cased key is \<open>name\<close>.
\<close>

definition header_value :: "string \<Rightarrow> (string \<times> string) list \<Rightarrow> string option" where
  "header_value name hs =
     (case filter (\<lambda>kv. py_lower (fst kv) = name) hs of
        [] \<Rightarrow> None
      | xs \<Rightarrow> Some (snd (last xs)))"

definition int_or_none :: "env \<Rightarrow> string \<Rightarrow> int option" where
  "int_or_none E v =
     (case py_int (int_max_str_digits E) v of Inl e \<Rightarrow> None | Inr n \<Rightarrow> Some n)"

text \<open>The snapshot \<open>rl\<close> after the loop of \<open>update_rate_limit\<close> has run over \<open>hs\<close>.\<close>

definition snapshot_after ::
    "env \<Rightarrow> (string \<times> string) list \<Rightarrow> RateLimitInfo \<Rightarrow> RateLimitInfo" where
  "snapshot_after E hs rl =
     \<lparr>remaining_requests =
        (case header_value ''x-ratelimit-remaining-requests'' hs of
           None \<Rightarrow> remaining_requests rl | Some v \<Rightarrow> int_or_none E v),
      remaining_tokens =
        (case header_value ''x-ratelimit-remaining-tokens'' hs of
           None \<Rightarrow> remaining_tokens rl | Some v \<Rightarrow> int_or_none E v),
      reset_timestamp =
        (case header_value ''x-ratelimit-reset-requests'' hs of
           None \<Rightarrow> reset_timestamp rl | Some v \<Rightarrow> try_reset E v),
      model = model rl\<rparr>"

subsection \<open>Initial values and test doubles\<close>

text \<open>
  \<open>ServiceConfig()\<close>: the defaults of the dataclass. The temperatures 0.4, 0.2 and 0.3
  are the doubles nearest to them.
\<close>

definition ServiceConfig_init :: ServiceConfig where
  "ServiceConfig_init =
     \<lparr>api_key = None,
      organization = None,
      default_model = u ''gpt-4o'',
      profiles = JObj
        [(u ''gpt-4o'',
            JObj [(u ''temperature'', JFloat 0x3FD999999999999A), (u ''max_tokens'', JInt 2048)]),
         (u ''gpt-4.1'',
            JObj [(u ''temperature'', JFloat 0x3FC999999999999A), (u ''max_tokens'', JInt 2048)]),
         (u ''gpt-4.1-mini'',
            JObj [(u ''temperature'', JFloat 0x3FD3333333333333), (u ''max_tokens'', JInt 1024)])],
      host = u ''127.0.0.1'',
      port = 3925,
      tls_enabled = False,
      consent_acknowledged = False\<rparr>"

text \<open>\<open>GPTService(config)\<close>.\<close>

definition GPTService_init :: "ServiceConfig \<Rightarrow> service" where
  "GPTService_init cfg = \<lparr>config = cfg, rate_limit = RateLimitInfo_init None\<rparr>"

text \<open>
  A substitute environment for running the service on examples: every upstream request
  gets the outcome \<open>up\<close>, every request body parses to the outcome \<open>parsed\<close>, opening
  the configuration file has the outcome \<open>opened\<close>; writing succeeds, no string is a
  float, the clock stands at zero and \<open>str\<close> of a value that is no string is empty.
\<close>

definition fake_env :: "exn + upstream_response \<Rightarrow> exn + json \<Rightarrow> exn option \<Rightarrow> env" where
  "fake_env up parsed opened =
     \<lparr>requests_post = (\<lambda>r. up),
      json_loads = (\<lambda>t. parsed),
      py_repr = (\<lambda>v. []),
      open_config = opened,
      fh_write = (\<lambda>d. None),
      py_float = (\<lambda>v. None),
      time_plus = (\<lambda>x. x),
      int_max_str_digits = 4300\<rparr>"

text \<open>A service that is ready, and one that has a key but no consent.\<close>

definition ready_service :: service where
  "ready_service =
     GPTService_init
       (ServiceConfig_init\<lparr>api_key := Some (u ''sk-test''), consent_acknowledged := True\<rparr>)"

definition no_consent_service :: service where
  "no_consent_service = GPTService_init (ServiceConfig_init\<lparr>api_key := Some (u ''sk-test'')\<rparr>)"

text \<open>The three header names that \<open>update_rate_limit\<close> looks for.\<close>

definition rate_limit_names :: "string set" where
  "rate_limit_names =
     {''x-ratelimit-remaining-requests'', ''x-ratelimit-remaining-tokens'',
      ''x-ratelimit-reset-requests''}"

text \<open>Requests, responses and a service with a snapshot, for the examples.\<close>

definition status_request :: http_request where
  "status_request = \<lparr>req_path = ''/status'', content_length = None, rfile = []\<rparr>"

definition chat_payload :: json where
  "chat_payload = JObj [(u ''messages'', JArr [])]"

definition invalid_key_response :: upstream_response where
  "invalid_key_response =
     \<lparr>status_code = 401, resp_text = u ''invalid key'', resp_headers = [],
      resp_json = Inl (Exn JSONDecodeError None)\<rparr>"

definition multiple_choices_response :: upstream_response where
  "multiple_choices_response =
     \<lparr>status_code = 300, resp_text = u ''{}'', resp_headers = [], resp_json = Inr (JObj [])\<rparr>"


definition used_service :: service where
  "used_service =
     ready_service\<lparr>rate_limit :=
       \<lparr>remaining_requests = Some 7, remaining_tokens = Some 900, reset_timestamp = None,
        model = Some (JStr (u ''gpt-4o''))\<rparr>\<rparr>"

text \<open>
  The configuration after the three assignments of the \<open>/config\<close> branch, for a payload
  that is the dictionary \<open>kvs\<close>.
\<close>

definition patched_config :: "env \<Rightarrow> (ustr \<times> json) list \<Rightarrow> ServiceConfig \<Rightarrow> ServiceConfig" where
  "patched_config E kvs cfg =
     (let cfg1 = (case map_of kvs (u ''default_model'') of
                    None \<Rightarrow> cfg | Some v \<Rightarrow> cfg\<lparr>default_model := py_str E v\<rparr>);
          cfg2 = (case map_of kvs (u ''profiles'') of
                    None \<Rightarrow> cfg1 | Some v \<Rightarrow> cfg1\<lparr>profiles := v\<rparr>)
      in case map_of kvs (u ''consent_acknowledged'') of
           None \<Rightarrow> cfg2 | Some v \<Rightarrow> cfg2\<lparr>consent_acknowledged := truthy v\<rparr>)"

text \<open>Three \<open>/config\<close> requests with their bodies, and what the first two parse to.\<close>

definition model_patch_request :: http_request where
  \<open>model_patch_request =
     \<lparr>req_path = ''/config'', content_length = Some ''22'',
      rfile = ''{"default_model": "x"}''\<rparr>\<close>

definition model_patch :: json where
  "model_patch = JObj [(u ''default_model'', JStr (u ''x''))]"

definition profiles_patch_request :: http_request where
  \<open>profiles_patch_request =
     \<lparr>req_path = ''/config'', content_length = Some ''15'', rfile = ''{"profiles": 7}''\<rparr>\<close>

definition profiles_patch :: json where
  "profiles_patch = JObj [(u ''profiles'', JInt 7)]"

definition broken_request :: http_request where
  \<open>broken_request =
     \<lparr>req_path = ''/config'', content_length = Some ''16'', rfile = ''{"default_model"''\<rparr>\<close>

text \<open>A header map with mixed-case names, a value that is no number, and another header.\<close>

definition noisy_headers :: "(string \<times> string) list" where
  "noisy_headers =
     [(''X-RateLimit-Remaining-Requests'', ''many''),
      (''X-RATELIMIT-REMAINING-TOKENS'', ''1000''),
      (''Content-Type'', ''application/json''),
      (''x-ratelimit-reset-requests'', ''1s'')]"

section \<open>Readiness\<close>

lemma msg_no_key_neq_msg_no_consent: "msg_no_key \<noteq> msg_no_consent"
  by (simp add: msg_no_key_def msg_no_consent_def u_def)

text \<open>
  C4. \<open>ensure_ready\<close> raises the missing-credential error exactly when no credential is
  configured (\<open>None\<close> or the empty string), the consent error exactly when a credential
  is configured and consent is not acknowledged, and returns exactly when both hold. The
  two errors differ, and the outcome is a function of the configuration alone: the
  rate-limit snapshot has no part in it, and no state is returned changed.
\<close>

theorem ensure_ready_cases:
  "(ensure_ready s = Inl msg_no_key) = (\<not> truthy_opt (api_key (config s)))
   \<and> (ensure_ready s = Inl msg_no_consent) =
       (truthy_opt (api_key (config s)) \<and> \<not> consent_acknowledged (config s))
   \<and> (ensure_ready s = Inr ()) =
       (truthy_opt (api_key (config s)) \<and> consent_acknowledged (config s))
   \<and> msg_no_key \<noteq> msg_no_consent
   \<and> ensure_ready (s\<lparr>rate_limit := r\<rparr>) = ensure_ready s"
  using msg_no_key_neq_msg_no_consent by (auto simp: ensure_ready_def)

section \<open>The rate-limit snapshot\<close>

lemma py_int_err: "py_int n s = Inl e \<Longrightarrow> e = invalid_literal"
  by (auto simp: py_int_def Let_def split: if_splits option.splits prod.splits)

lemma try_int_eq: "try_int E v = Inr (int_or_none E v)"
  by (auto simp: try_int_def int_or_none_def invalid_literal_def split: sum.splits dest!: py_int_err)

lemma header_value_Nil: "header_value name [] = None"
  by (simp add: header_value_def)

lemma header_value_Cons:
  "header_value name (kv # hs) =
     (case header_value name hs of
        Some v \<Rightarrow> Some v
      | None \<Rightarrow> if py_lower (fst kv) = name then Some (snd kv) else None)"
  by (auto simp: header_value_def split: list.splits)

lemma rl_step_eq: "rl_step E kv rl = Inr (snapshot_after E [kv] rl)"
  by (simp add: rl_step_def Let_def try_int_eq snapshot_after_def header_value_Cons header_value_Nil)

lemma snapshot_after_Cons:
  "snapshot_after E hs (snapshot_after E [kv] rl) = snapshot_after E (kv # hs) rl"
  by (simp add: snapshot_after_def header_value_Cons header_value_Nil split: option.splits)

lemma rl_loop_eq: "rl_loop E hs rl = Inr (snapshot_after E hs rl)"
proof (induction hs arbitrary: rl)
  case Nil
  show ?case by (simp add: snapshot_after_def header_value_Nil)
next
  case (Cons kv hs)
  show ?case by (simp add: rl_step_eq Cons.IH snapshot_after_Cons)
qed

section \<open>The codecs of the secret\<close>

lemma of_char_of_small: "n < 256 \<Longrightarrow> (of_char (char_of (n::nat)) :: nat) = n"
  by simp

lemma cont_char_of: "m < 64 \<Longrightarrow> cont (char_of (0x80 + m :: nat)) \<and> cbits (char_of (0x80 + m :: nat)) = m"
  by (simp add: cont_def cbits_def)

lemma dec1: assumes "c < 0x80" shows "utf8_decode (char_of c # rest) = map_option ((#) c) (utf8_decode rest)"
  using assms by simp

lemma dec2: assumes "0x80 \<le> c" "c < 0x800"
  shows "utf8_decode (char_of (0xC0 + c div 64) # char_of (0x80 + c mod 64) # rest) = map_option ((#) c) (utf8_decode rest)"
proof -
  have d: "c div 64 < 32" using assms by arith
  have a: "(of_char (char_of (0xC0 + c div 64)) :: nat) = 0xC0 + c div 64"
    using d by (intro of_char_of_small) arith
  have r: "c div 64 * 64 + c mod 64 = c" by simp
  show ?thesis
    using assms d by (simp add: a r cont_char_of Let_def del: of_char_of)
qed

lemma dec3: assumes "0x800 \<le> c" "c < 0x10000" "\<not> is_surrogate c"
  shows "utf8_decode (char_of (0xE0 + c div 4096) # char_of (0x80 + c div 64 mod 64) # char_of (0x80 + c mod 64) # rest) = map_option ((#) c) (utf8_decode rest)"
proof -
  have d: "c div 4096 < 16" using assms by (simp add: less_mult_imp_div_less)
  have a: "(of_char (char_of (0xE0 + c div 4096)) :: nat) = 0xE0 + c div 4096"
    using d by (intro of_char_of_small) arith
  have r: "c div 4096 * 4096 + c div 64 mod 64 * 64 + c mod 64 = c"
    using mod_mult2_eq[of c 64 64] div_mult_mod_eq[of c 4096] by simp
  show ?thesis
    using assms d by (simp add: a r cont_char_of Let_def del: of_char_of)
qed

lemma dec4: assumes "0x10000 \<le> c" "c < 0x110000"
  shows "utf8_decode (char_of (0xF0 + c div 262144) # char_of (0x80 + c div 4096 mod 64) # char_of (0x80 + c div 64 mod 64) # char_of (0x80 + c mod 64) # rest) = map_option ((#) c) (utf8_decode rest)"
proof -
  have d: "c div 262144 < 5" using assms by (simp add: less_mult_imp_div_less)
  have a: "(of_char (char_of (0xF0 + c div 262144)) :: nat) = 0xF0 + c div 262144"
    using d by (intro of_char_of_small) arith
  have r: "c div 262144 * 262144 + c div 4096 mod 64 * 4096 + c div 64 mod 64 * 64 + c mod 64 = c"
    using mod_mult2_eq[of c 64 64] mod_mult2_eq[of c 4096 64] div_mult_mod_eq[of c 262144] by simp
  show ?thesis
    using assms d by (simp add: a r cont_char_of Let_def del: of_char_of)
qed

lemma utf8_decode_encode_cp:
  "encode_cp c = Some bs \<Longrightarrow> utf8_decode (bs @ rest) = map_option ((#) c) (utf8_decode rest)"
  unfolding encode_cp_def
  by (auto split: if_splits simp del: utf8_decode.simps simp: dec1 dec2 dec3 dec4)

lemma utf8_roundtrip: "utf8_encode s = Some bs \<Longrightarrow> utf8_decode bs = Some s"
proof (induction s arbitrary: bs)
  case Nil
  then show ?case by simp
next
  case (Cons c cs)
  then obtain b r where b: "encode_cp c = Some b" and r: "utf8_encode cs = Some r" and bs: "bs = b @ r"
    by (auto split: option.splits)
  show ?case using Cons.IH[OF r] by (simp add: bs utf8_decode_encode_cp[OF b])
qed

lemma encode_cp_ok: "c < 0x110000 \<Longrightarrow> \<not> is_surrogate c \<Longrightarrow> \<exists>bs. encode_cp c = Some bs \<and> 1 \<le> length bs"
  by (auto simp: encode_cp_def)

lemma utf8_encode_ok:
  "list_all (\<lambda>c. c < 0x110000 \<and> \<not> is_surrogate c) s \<Longrightarrow> \<exists>bs. utf8_encode s = Some bs \<and> length s \<le> length bs"
proof (induction s)
  case Nil
  then show ?case by simp
next
  case (Cons c cs)
  then obtain r where r: "utf8_encode cs = Some r" "length cs \<le> length r" by auto
  from Cons.prems obtain b where b: "encode_cp c = Some b" "1 \<le> length b"
    using encode_cp_ok[of c] by auto
  show ?case using r b by simp
qed

lemma of_char_b64_char:
  "i < 64 \<Longrightarrow> (of_char (b64_char i) :: nat) =
     (if i < 26 then 65 + i else if i < 52 then 71 + i else if i < 62 then i - 4
      else if i = 62 then 43 else 47)"
  by (auto simp: b64_char_def)

lemma b64_val_char: "i < 64 \<Longrightarrow> b64_val (b64_char i) = Some i"
  by (auto simp: b64_val_def b64_char_def Let_def)

lemma b64_char_not_pad: assumes "i < 64" shows "b64_char i \<noteq> CHR ''=''"
proof
  assume "b64_char i = CHR ''=''"
  then have "(of_char (b64_char i) :: nat) = 61" by simp
  with assms show False by (simp add: of_char_b64_char split: if_splits)
qed

lemma b64_char_ascii: "i < 64 \<Longrightarrow> (of_char (b64_char i) :: nat) < 128"
  by (auto simp: of_char_b64_char)

lemma a2b_char:
  "i < 64 \<Longrightarrow> a2b_loop q l p out (b64_char i # cs) =
     (if q = 0 then a2b_loop 1 i 0 out cs
      else if q = 1 then a2b_loop 2 (i mod 16) 0 (out @ [char_of (l * 4 + i div 16)]) cs
      else if q = 2 then a2b_loop 3 (i mod 4) 0 (out @ [char_of (l * 16 + i div 4)]) cs
      else a2b_loop 0 0 0 (out @ [char_of (l * 64 + i)]) cs)"
  by (simp add: b64_val_char b64_char_not_pad)

lemma a2b_pad:
  "a2b_loop q l p out (CHR ''='' # cs) =
     (if 2 \<le> q \<and> 4 \<le> q + (p + 1) then Inr out
      else a2b_loop q l (if 2 \<le> q then p + 1 else p) out cs)"
  by simp

lemma byte_lt: "(of_char (a::char) :: nat) < 256"
  by simp

lemma char_of_of_char_nat: "char_of (of_char (a::char) :: nat) = a"
  by simp

lemma b64_roundtrip: "a2b_loop 0 0 0 out (b64encode bs) = Inr (out @ bs)"
proof (induction bs arbitrary: out rule: b64encode.induct)
  case 1
  show ?case by simp
next
  case (2 a)
  define x where "x = (of_char a :: nat)"
  have x: "x < 256" by (simp add: x_def)
  have i1: "x div 4 < 64" using x by simp
  have i2: "x mod 4 * 16 < 64" by simp
  have e: "x div 4 * 4 + x mod 4 * 16 div 16 = x" by simp
  have a: "char_of x = a" by (simp add: x_def)
  show ?case
    by (simp add: Let_def x_def[symmetric] a2b_char[OF i1] a2b_char[OF i2] a2b_pad e a del: a2b_loop.simps(2))
next
  case (3 a b)
  define x where "x = (of_char a :: nat)"
  define y where "y = (of_char b :: nat)"
  have x: "x < 256" and y: "y < 256" by (simp_all add: x_def y_def)
  have i1: "x div 4 < 64" using x by simp
  have i2: "x mod 4 * 16 + y div 16 < 64" using y by arith
  have i3: "y mod 16 * 4 < 64" by simp
  have e1: "x div 4 * 4 + (x mod 4 * 16 + y div 16) div 16 = x" using y by simp
  have e2: "(x mod 4 * 16 + y div 16) mod 16 * 16 + y mod 16 * 4 div 4 = y" using y by simp
  have a: "char_of x = a" "char_of y = b" by (simp_all add: x_def y_def)
  have "y div 16 < 16" using y by (simp add: less_mult_imp_div_less)
  then have f: "y div 16 div 16 = 0" "y div 16 mod 16 = y div 16" by simp_all
  show ?case
    by (simp add: f Let_def x_def[symmetric] y_def[symmetric] a2b_char[OF i1] a2b_char[OF i2]
          a2b_char[OF i3] a2b_pad e1 e2 a del: a2b_loop.simps(2))
next
  case (4 a b c r)
  define x where "x = (of_char a :: nat)"
  define y where "y = (of_char b :: nat)"
  define z where "z = (of_char c :: nat)"
  have x: "x < 256" and y: "y < 256" and z: "z < 256" by (simp_all add: x_def y_def z_def)
  have i1: "x div 4 < 64" using x by simp
  have i2: "x mod 4 * 16 + y div 16 < 64" using y by arith
  have i3: "y mod 16 * 4 + z div 64 < 64" using z by arith
  have i4: "z mod 64 < 64" by simp
  have e1: "x div 4 * 4 + (x mod 4 * 16 + y div 16) div 16 = x" using y by simp
  have e2: "(x mod 4 * 16 + y div 16) mod 16 * 16 + (y mod 16 * 4 + z div 64) div 4 = y"
    using y z by simp
  have e3: "(y mod 16 * 4 + z div 64) mod 4 * 64 + z mod 64 = z" using z by simp
  have a: "char_of x = a" "char_of y = b" "char_of z = c" by (simp_all add: x_def y_def z_def)
  have "y div 16 < 16" "z div 64 < 4" using y z by (simp_all add: less_mult_imp_div_less)
  then have f: "y div 16 div 16 = 0" "y div 16 mod 16 = y div 16"
    "z div 64 div 4 = 0" "z div 64 mod 4 = z div 64" by simp_all
  show ?case
    using "4.IH"[of "out @ [a, b, c]"]
    by (simp add: f Let_def x_def[symmetric] y_def[symmetric] z_def[symmetric] a2b_char[OF i1]
          a2b_char[OF i2] a2b_char[OF i3] a2b_char[OF i4] e1 e2 e3 a del: a2b_loop.simps(2))
qed

lemma b64decode_b64encode: "b64decode (b64encode bs) = Inr bs"
  using b64_roundtrip[of "[]" bs] by (simp add: b64decode_def)

lemma b64_idx_nat:
  assumes "x < 256" "y < 256" "z < (256::nat)"
  shows "x div 4 < 64" "x mod 4 * 16 < 64" "x mod 4 * 16 + y div 16 < 64"
    "y mod 16 * 4 < 64" "y mod 16 * 4 + z div 64 < 64" "z mod 64 < 64"
  using assms by arith+

lemmas b64_idx = b64_idx_nat[OF byte_lt byte_lt byte_lt]

lemma b64encode_ascii: "list_all (\<lambda>b. (of_char b :: nat) < 128) (b64encode bs)"
  by (induction bs rule: b64encode.induct)
     (simp_all add: Let_def b64_char_ascii b64_idx del: of_char_of)

lemma length_b64encode: "length (b64encode bs) = 4 * ((length bs + 2) div 3)"
proof (induction bs rule: b64encode.induct)
  case (4 a b c r)
  have "(5 + length r) div 3 = Suc ((Suc (Suc (length r))) div 3)" by arith
  with 4 show ?case by (simp add: Let_def)
qed (simp_all add: Let_def)

lemma lower_char_idem: "lower_char (lower_char c) = lower_char c"
proof -
  define n where "n = (of_char c :: nat)"
  have n: "n < 256" by (simp add: n_def)
  show ?thesis
    using n by (auto simp: lower_char_def Let_def n_def[symmetric])
qed

lemma py_lower_idem: "py_lower (py_lower k) = py_lower k"
  by (simp add: py_lower_def lower_char_idem)

lemma header_value_lower:
  "header_value name (map (\<lambda>kv. (py_lower (fst kv), snd kv)) hs) = header_value name hs"
  by (induction hs) (simp_all add: header_value_Nil header_value_Cons py_lower_idem split: option.splits)

lemma header_value_filter:
  "P name \<Longrightarrow> header_value name (filter (\<lambda>kv. P (py_lower (fst kv))) hs) = header_value name hs"
  by (induction hs) (auto simp: header_value_Nil header_value_Cons split: option.splits)

lemma update_rate_limit_eq:
  "update_rate_limit E hs m s =
     Inr (s\<lparr>rate_limit := snapshot_after E hs (RateLimitInfo_init (Some m))\<rparr>)"
  by (simp add: update_rate_limit_def rl_loop_eq)

lemma snapshot_after_cong:
  "header_value ''x-ratelimit-remaining-requests'' hs = header_value ''x-ratelimit-remaining-requests'' hs'
   \<Longrightarrow> header_value ''x-ratelimit-remaining-tokens'' hs = header_value ''x-ratelimit-remaining-tokens'' hs'
   \<Longrightarrow> header_value ''x-ratelimit-reset-requests'' hs = header_value ''x-ratelimit-reset-requests'' hs'
   \<Longrightarrow> snapshot_after E hs rl = snapshot_after E hs' rl"
  by (simp add: snapshot_after_def)

text \<open>
  C10. \<open>update_rate_limit\<close> returns for every header map and never raises. The new
  snapshot carries the model; each of the three fields is \<open>None\<close> when no header has
  the name, and otherwise comes from the value of that header: \<open>None\<close> when \<open>int\<close> (for
  the reset time \<open>float\<close>) rejects it, the number otherwise. Header names count after
  lower-casing only: lower-casing every name of the map changes nothing. Headers with
  other names are ignored: dropping them from the map changes nothing.
\<close>

theorem update_rate_limit_total:
  "\<exists>rl. update_rate_limit E hs m s = Inr (s\<lparr>rate_limit := rl\<rparr>)
     \<and> model rl = Some m
     \<and> remaining_requests rl =
         (case header_value ''x-ratelimit-remaining-requests'' hs of
            None \<Rightarrow> None
          | Some v \<Rightarrow> (case py_int (int_max_str_digits E) v of Inl e \<Rightarrow> None | Inr n \<Rightarrow> Some n))
     \<and> remaining_tokens rl =
         (case header_value ''x-ratelimit-remaining-tokens'' hs of
            None \<Rightarrow> None
          | Some v \<Rightarrow> (case py_int (int_max_str_digits E) v of Inl e \<Rightarrow> None | Inr n \<Rightarrow> Some n))
     \<and> reset_timestamp rl =
         (case header_value ''x-ratelimit-reset-requests'' hs of
            None \<Rightarrow> None
          | Some v \<Rightarrow> (case py_float E v of None \<Rightarrow> None | Some f \<Rightarrow> Some (time_plus E f)))
     \<and> update_rate_limit E (map (\<lambda>kv. (py_lower (fst kv), snd kv)) hs) m s
         = update_rate_limit E hs m s
     \<and> update_rate_limit E (filter (\<lambda>kv. py_lower (fst kv) \<in> rate_limit_names) hs) m s
         = update_rate_limit E hs m s"
proof -
  let ?rl = "snapshot_after E hs (RateLimitInfo_init (Some m))"
  have 1: "update_rate_limit E hs m s = Inr (s\<lparr>rate_limit := ?rl\<rparr>)"
    by (rule update_rate_limit_eq)
  have 2: "model ?rl = Some m"
    by (simp add: snapshot_after_def RateLimitInfo_init_def)
  have 3: "remaining_requests ?rl =
         (case header_value ''x-ratelimit-remaining-requests'' hs of
            None \<Rightarrow> None
          | Some v \<Rightarrow> (case py_int (int_max_str_digits E) v of Inl e \<Rightarrow> None | Inr n \<Rightarrow> Some n))"
    by (simp add: snapshot_after_def RateLimitInfo_init_def int_or_none_def split: option.splits)
  have 4: "remaining_tokens ?rl =
         (case header_value ''x-ratelimit-remaining-tokens'' hs of
            None \<Rightarrow> None
          | Some v \<Rightarrow> (case py_int (int_max_str_digits E) v of Inl e \<Rightarrow> None | Inr n \<Rightarrow> Some n))"
    by (simp add: snapshot_after_def RateLimitInfo_init_def int_or_none_def split: option.splits)
  have 5: "reset_timestamp ?rl =
         (case header_value ''x-ratelimit-reset-requests'' hs of
            None \<Rightarrow> None
          | Some v \<Rightarrow> (case py_float E v of None \<Rightarrow> None | Some f \<Rightarrow> Some (time_plus E f)))"
    by (simp add: snapshot_after_def RateLimitInfo_init_def try_reset_def split: option.splits)
  have 6: "update_rate_limit E (map (\<lambda>kv. (py_lower (fst kv), snd kv)) hs) m s
         = update_rate_limit E hs m s"
    by (simp add: update_rate_limit_eq header_value_lower cong: snapshot_after_cong)
  have f: "snapshot_after E (filter (\<lambda>kv. py_lower (fst kv) \<in> rate_limit_names) hs)
              (RateLimitInfo_init (Some m))
           = snapshot_after E hs (RateLimitInfo_init (Some m))"
    by (rule snapshot_after_cong;
        rule header_value_filter[of "\<lambda>k. k \<in> rate_limit_names"];
        simp add: rate_limit_names_def)
  have 7: "update_rate_limit E (filter (\<lambda>kv. py_lower (fst kv) \<in> rate_limit_names) hs) m s
         = update_rate_limit E hs m s"
    by (simp only: update_rate_limit_eq f)
  from 1 2 3 4 5 6 7 show ?thesis by blast
qed

section \<open>The chat relay\<close>

lemma ensure_ready_msg:
  "ensure_ready s = Inl m \<Longrightarrow> m = msg_no_key \<or> m = msg_no_consent"
  by (auto simp: ensure_ready_def split: if_splits)

lemma ensure_ready_Inr:
  "(ensure_ready s = Inr x) = (truthy_opt (api_key (config s)) \<and> consent_acknowledged (config s))"
  by (auto simp: ensure_ready_def)

text \<open>
  C1. When the key is missing (\<open>None\<close> or empty) or consent is not acknowledged,
  \<open>call_openai\<close> raises the \<open>RuntimeError\<close> of \<open>ensure_ready\<close> (one of its two messages),
  sends no request upstream, and returns the service, and with it the rate-limit
  snapshot, as it was.
\<close>

theorem call_openai_not_ready:
  assumes "\<not> truthy_opt (api_key (config s)) \<or> \<not> consent_acknowledged (config s)"
  shows "\<exists>m. call_openai E payload s = (Inl (Exn RuntimeError (Some m)), s, [])
           \<and> ensure_ready s = Inl m
           \<and> (m = msg_no_key \<or> m = msg_no_consent)"
proof -
  from assms obtain m where m: "ensure_ready s = Inl m"
    by (cases "ensure_ready s") (auto simp: ensure_ready_Inr)
  then have "call_openai E payload s = (Inl (Exn RuntimeError (Some m)), s, [])"
    by (simp add: call_openai_def)
  with m ensure_ready_msg[OF m] show ?thesis by blast
qed

theorem call_openai_not_ready_witness:
  "\<not> consent_acknowledged (config no_consent_service)
   \<and> call_openai (fake_env (Inl (Exn RequestException None)) (Inr JNull) None)
         chat_payload no_consent_service
       = (Inl (Exn RuntimeError (Some msg_no_consent)), no_consent_service, [])"
proof -
  have c: "\<not> consent_acknowledged (config no_consent_service)"
    by (simp add: no_consent_service_def GPTService_init_def ServiceConfig_init_def)
  have k: "ensure_ready no_consent_service = Inl msg_no_consent"
    by (simp add: ensure_ready_def no_consent_service_def GPTService_init_def
          ServiceConfig_init_def u_def)
  from call_openai_not_ready[of no_consent_service
        "fake_env (Inl (Exn RequestException None)) (Inr JNull) None"
        chat_payload] c k
  show ?thesis by auto
qed

lemma str_int_401: "str_int 401 = u ''401''"
  by (simp add: str_int_def digits_of.simps u_def)

lemma call_openai_ready:
  assumes "ensure_ready s = Inr ()" and "py_get payload (u ''model'') = Inr got"
  shows "call_openai E payload s =
     (let mdl = effective_model got s; req = chat_request payload mdl s
      in case requests_post E req of
           Inl e \<Rightarrow> (Inl e, s, [req])
         | Inr response \<Rightarrow>
             if status_code response \<ge> 400 then
               (Inl (Exn RuntimeError
                  (Some (openai_error (status_code response) (resp_text response)))), s, [req])
             else (resp_json response,
                   s\<lparr>rate_limit := snapshot_after E (resp_headers response)
                                     (RateLimitInfo_init (Some mdl))\<rparr>, [req]))"
  using assms by (simp add: call_openai_def update_rate_limit_eq Let_def split: sum.splits)

text \<open>
  C2, amended. When the service is ready, the payload is a dictionary and the upstream
  response has a status of 400 or more, \<open>call_openai\<close> raises \<open>RuntimeError\<close> with the
  message \<open>OpenAI error <status>: <body text>\<close>, after the one upstream request, and
  returns the service, and with it the rate-limit snapshot, as it was. A 401 with the
  body \<open>invalid key\<close> gives the message \<open>OpenAI error 401: invalid key\<close>.
\<close>

theorem call_openai_upstream_error:
  assumes "ensure_ready s = Inr ()"
    and "py_get payload (u ''model'') = Inr got"
    and "requests_post E (chat_request payload (effective_model got s) s) = Inr response"
    and "400 \<le> status_code response"
  shows "call_openai E payload s =
           (Inl (Exn RuntimeError
                  (Some (u ''OpenAI error '' @ str_int (status_code response) @ u '': ''
                         @ resp_text response))),
            s, [chat_request payload (effective_model got s) s])
         \<and> (status_code response = 401 \<and> resp_text response = u ''invalid key''
              \<longrightarrow> fst (call_openai E payload s)
                  = Inl (Exn RuntimeError (Some (u ''OpenAI error 401: invalid key''))))"
proof -
  have 1: "call_openai E payload s =
           (Inl (Exn RuntimeError
                  (Some (u ''OpenAI error '' @ str_int (status_code response) @ u '': ''
                         @ resp_text response))),
            s, [chat_request payload (effective_model got s) s])"
    using assms by (simp add: call_openai_ready Let_def openai_error_def)
  have 2: "u ''OpenAI error '' @ str_int 401 @ u '': '' @ u ''invalid key''
           = u ''OpenAI error 401: invalid key''"
    by (simp add: str_int_401 u_def)
  show ?thesis using 1 2 by auto
qed

lemma ready_service_ready: "ensure_ready ready_service = Inr ()"
  by (simp add: ensure_ready_def ready_service_def GPTService_init_def ServiceConfig_init_def u_def)

lemma used_service_ready: "ensure_ready used_service = Inr ()"
  by (simp add: ensure_ready_def used_service_def ready_service_def GPTService_init_def
        ServiceConfig_init_def u_def)

lemma chat_payload_model: "py_get chat_payload (u ''model'') = Inr JNull"
  by (simp add: chat_payload_def u_def)

lemma fake_env_post: "requests_post (fake_env up parsed opened) r = up"
  by (simp add: fake_env_def)

text \<open>The 401 of the example, answered to a ready service.\<close>

theorem call_openai_upstream_error_witness:
  "call_openai (fake_env (Inr invalid_key_response) (Inr JNull) None) chat_payload ready_service
     = (Inl (Exn RuntimeError (Some (u ''OpenAI error 401: invalid key''))), ready_service,
        [chat_request chat_payload (effective_model JNull ready_service) ready_service])"
proof -
  have s: "status_code invalid_key_response = 401" "resp_text invalid_key_response = u ''invalid key''"
    by (simp_all add: invalid_key_response_def)
  have l: "(400::int) \<le> status_code invalid_key_response" by (simp add: s)
  from call_openai_upstream_error[OF ready_service_ready chat_payload_model fake_env_post l,
      of "Inr JNull" None] s
  show ?thesis by (cases "call_openai (fake_env (Inr invalid_key_response) (Inr JNull) None) chat_payload ready_service") simp
qed

text \<open>
  C2 as stated does not hold: a response with the status 300 is not a 2xx response, yet
  \<open>call_openai\<close> returns its body and replaces the snapshot (7 remaining requests
  before, unknown after).
\<close>

theorem call_openai_status_300:
  "status_code multiple_choices_response = 300
   \<and> fst (call_openai (fake_env (Inr multiple_choices_response) (Inr JNull) None)
            chat_payload used_service) = Inr (JObj [])
   \<and> remaining_requests (rate_limit used_service) = Some 7
   \<and> remaining_requests (rate_limit (fst (snd
         (call_openai (fake_env (Inr multiple_choices_response) (Inr JNull) None)
            chat_payload used_service)))) = None"
proof -
  have "call_openai (fake_env (Inr multiple_choices_response) (Inr JNull) None)
            chat_payload used_service
        = (Inr (JObj []),
           used_service\<lparr>rate_limit := snapshot_after
               (fake_env (Inr multiple_choices_response) (Inr JNull) None) []
               (RateLimitInfo_init (Some (effective_model JNull used_service)))\<rparr>,
           [chat_request chat_payload (effective_model JNull used_service) used_service])"
    by (simp add: call_openai_ready[OF used_service_ready chat_payload_model] fake_env_post
          Let_def multiple_choices_response_def)
  then show ?thesis
    by (simp add: multiple_choices_response_def snapshot_after_def header_value_Nil
          RateLimitInfo_init_def used_service_def)
qed


lemma py_int_1000: "py_int n ''1000'' = Inr 1000"
  by (simp add: py_int_def Let_def int_space_def is_digit_def digit_val_def digits_value_def
        invalid_literal_def)











section \<open>The status report\<close>

text \<open>
  C9. Two services that differ only in the value of a non-empty key answer every \<open>GET\<close>
  request with the same response: the payload of \<open>/status\<close> depends on the key only
  through its being set.
\<close>

theorem status_hides_credential:
  assumes "k1 \<noteq> []" and "k2 \<noteq> []"
  shows "do_GET req (s\<lparr>config := (config s)\<lparr>api_key := Some k1\<rparr>\<rparr>)
         = do_GET req (s\<lparr>config := (config s)\<lparr>api_key := Some k2\<rparr>\<rparr>)"
  using assms
  by (simp add: do_GET_def status_payload_def ensure_ready_def get_rate_limit_def Let_def)

theorem status_hides_credential_witness:
  "u ''sk-test'' \<noteq> u ''sk-other-key''
   \<and> do_GET status_request
         (ready_service\<lparr>config := (config ready_service)\<lparr>api_key := Some (u ''sk-test'')\<rparr>\<rparr>)
       = do_GET status_request
           (ready_service\<lparr>config := (config ready_service)\<lparr>api_key := Some (u ''sk-other-key'')\<rparr>\<rparr>)"
proof -
  have a: "u ''sk-test'' \<noteq> []" and b: "u ''sk-other-key'' \<noteq> []" by (simp_all add: u_def)
  have c: "u ''sk-test'' \<noteq> u ''sk-other-key''" by (simp add: u_def)
  from status_hides_credential[OF a b, of status_request ready_service] c show ?thesis by simp
qed

section \<open>Obfuscating the secret\<close>

lemma ascii_decode_b64encode: "ascii_decode (b64encode raw) = Some (map of_char (b64encode raw))"
  by (simp add: ascii_decode_def b64encode_ascii)

lemma ascii_encode_of_char:
  "list_all (\<lambda>b. (of_char b :: nat) < 128) bs \<Longrightarrow> ascii_encode (map of_char bs) = Some bs"
  by (simp add: ascii_encode_def list_all_iff comp_def)

lemma encode_secret_eq:
  assumes "s \<noteq> []" and "utf8_encode s = Some raw"
  shows "encode_secret (Some s) = Inr (Some (map of_char (b64encode raw)))"
  using assms by (simp add: encode_secret_def ascii_decode_b64encode)

lemma decode_secret_eq:
  assumes "raw \<noteq> []"
  shows "decode_secret (Some (map of_char (b64encode raw))) = utf8_decode raw"
proof -
  have "b64encode raw \<noteq> []" using assms by (cases raw rule: b64encode.cases) (simp_all add: Let_def)
  then show ?thesis
    by (simp add: decode_secret_def ascii_encode_of_char[OF b64encode_ascii] b64decode_b64encode)
qed

lemma b64encode_longer:
  assumes "raw \<noteq> []"
  shows "length raw < length (b64encode raw)"
proof -
  have "0 < length raw" using assms by simp
  then have "length raw < 4 * ((length raw + 2) div 3)" by arith
  then show ?thesis by (simp only: length_b64encode)
qed

text \<open>
  C8, amended. For every non-empty secret that holds no surrogate code point (and only
  code points below \<open>0x110000\<close>, as every \<open>str\<close> does), \<open>_encode_secret\<close> returns a text
  that \<open>_decode_secret\<close> maps back to the secret, the text differs from the secret, and
  it is the text that \<open>to_json\<close> puts under \<open>api_key\<close>.
\<close>

theorem secret_roundtrip:
  assumes "s \<noteq> []" and "list_all (\<lambda>c. c < 0x110000 \<and> \<not> is_surrogate c) s"
  shows "\<exists>e. encode_secret (Some s) = Inr (Some e)
            \<and> decode_secret (Some e) = Some s
            \<and> e \<noteq> s
            \<and> (\<forall>cfg. api_key cfg = Some s \<longrightarrow>
                  (\<exists>d. to_json cfg = Inr d \<and> py_getitem d (u ''api_key'') = Inr (JStr e)))"
proof -
  from utf8_encode_ok[OF assms(2)] obtain raw
    where raw: "utf8_encode s = Some raw" and len: "length s \<le> length raw" by blast
  from assms(1) len have ne: "raw \<noteq> []" by auto
  let ?e = "map of_char (b64encode raw) :: ustr"
  have 1: "encode_secret (Some s) = Inr (Some ?e)" by (rule encode_secret_eq[OF assms(1) raw])
  have 2: "decode_secret (Some ?e) = Some s"
    by (simp only: decode_secret_eq[OF ne] utf8_roundtrip[OF raw])
  have "length s < length ?e" using b64encode_longer[OF ne] len by simp
  then have 3: "?e \<noteq> s" by auto
  have 4: "\<exists>d. to_json cfg = Inr d \<and> py_getitem d (u ''api_key'') = Inr (JStr ?e)"
    if "api_key cfg = Some s" for cfg
    using that 1 by (simp add: to_json_def json_opt_str_def u_def)
  from 1 2 3 4 show ?thesis by blast
qed

text \<open>The secret \<open>sk-test\<close> is stored as \<open>c2stdGVzdA==\<close>.\<close>

theorem secret_roundtrip_witness:
  "encode_secret (Some (u ''sk-test'')) = Inr (Some (u ''c2stdGVzdA==''))
   \<and> decode_secret (Some (u ''c2stdGVzdA=='')) = Some (u ''sk-test'')
   \<and> u ''c2stdGVzdA=='' \<noteq> u ''sk-test''"
proof -
  have a: "u ''sk-test'' \<noteq> []" by (simp add: u_def)
  have b: "list_all (\<lambda>c. c < 0x110000 \<and> \<not> is_surrogate c) (u ''sk-test'')"
    by (simp add: u_def is_surrogate_def)
  have c: "encode_secret (Some (u ''sk-test'')) = Inr (Some (u ''c2stdGVzdA==''))"
    by code_simp
  from secret_roundtrip[OF a b] c show ?thesis by auto
qed

text \<open>
  C8 as stated does not hold: on the one-character secret \<open>"\ud800"\<close>, a lone
  surrogate, \<open>_encode_secret\<close> raises \<open>UnicodeEncodeError\<close>, so there is no encoded form.
\<close>

theorem encode_secret_surrogate:
  "encode_secret (Some [0xD800]) = Inl (Exn UnicodeEncodeError None)"
  by (simp add: encode_secret_def encode_cp_def is_surrogate_def)

section \<open>Updating the configuration\<close>

lemma patch_field_obj:
  "patch_field k assign (JObj kvs) cfg =
     Inr (case map_of kvs k of None \<Rightarrow> cfg | Some v \<Rightarrow> assign v cfg)"
  by (simp add: patch_field_def split: option.splits)

lemma post_config_obj:
  assumes "read_json E req = Inr (JObj kvs)"
  shows "post_config E req s =
     (case save E (patched_config E kvs (config s)) of
        Inl e \<Rightarrow> (write_error e HTTP_BAD_REQUEST,
                  s\<lparr>config := patched_config E kvs (config s)\<rparr>,
                  [patched_config E kvs (config s)])
      | Inr x \<Rightarrow> (write_json (JObj [(u ''status'', JStr (u ''ok''))]) HTTP_OK,
                  s\<lparr>config := patched_config E kvs (config s)\<rparr>,
                  [patched_config E kvs (config s)]))"
  using assms
  by (simp add: post_config_def patch_field_obj patched_config_def Let_def split: sum.splits)

lemma post_config_unreadable:
  assumes "read_json E req = Inl e"
  shows "post_config E req s = (write_error e HTTP_BAD_REQUEST, s, [])"
  using assms by (simp add: post_config_def)

lemma do_POST_config:
  assumes "req_path req = ''/config''"
  shows "do_POST E req s = (case post_config E req s of (r, s', saves) \<Rightarrow> (r, s', saves, []))"
  using assms by (simp add: do_POST_def)

lemma patched_config_fields:
  "default_model (patched_config E kvs cfg) =
     (case map_of kvs (u ''default_model'') of None \<Rightarrow> default_model cfg | Some v \<Rightarrow> py_str E v)"
  "profiles (patched_config E kvs cfg) =
     (case map_of kvs (u ''profiles'') of None \<Rightarrow> profiles cfg | Some v \<Rightarrow> v)"
  "consent_acknowledged (patched_config E kvs cfg) =
     (case map_of kvs (u ''consent_acknowledged'') of
        None \<Rightarrow> consent_acknowledged cfg | Some v \<Rightarrow> truthy v)"
  "api_key (patched_config E kvs cfg) = api_key cfg"
  "organization (patched_config E kvs cfg) = organization cfg"
  "host (patched_config E kvs cfg) = host cfg"
  "port (patched_config E kvs cfg) = port cfg"
  "tls_enabled (patched_config E kvs cfg) = tls_enabled cfg"
  by (simp_all add: patched_config_def Let_def split: option.splits)

lemma patched_config_model_only:
  "patched_config E [(u ''default_model'', JStr x)] cfg = cfg\<lparr>default_model := x\<rparr>"
  by (simp add: patched_config_def Let_def u_def py_str_def)

text \<open>
  C5. A \<open>/config\<close> request whose body is a JSON object, with whatever keys, calls \<open>save\<close>
  exactly once, on the configuration \<open>cfg'\<close> that is also the one the service holds
  afterwards. In \<open>cfg'\<close>, \<open>default_model\<close>, \<open>profiles\<close> and \<open>consent_acknowledged\<close> are
  the old values when the object lacks the key, and \<open>str\<close>, the value itself and \<open>bool\<close>
  of the object's value otherwise; the key, the organization, host, port and TLS flag
  are the old ones, and so is the rate-limit snapshot. Other keys of the object have no
  effect. When \<open>save\<close> returns, the response is \<open>{"status": "ok"}\<close> with status 200. For
  the object \<open>{"default_model": x}\<close> with a string \<open>x\<close>, \<open>cfg'\<close> is the old configuration
  with \<open>default_model\<close> set to \<open>x\<close>.
\<close>

theorem config_patch_frame:
  assumes "req_path req = ''/config''" and "read_json E req = Inr (JObj kvs)"
  shows "\<exists>cfg' r.
       do_POST E req s = (r, s\<lparr>config := cfg'\<rparr>, [cfg'], [])
     \<and> default_model cfg' =
         (case map_of kvs (u ''default_model'') of
            None \<Rightarrow> default_model (config s) | Some v \<Rightarrow> py_str E v)
     \<and> profiles cfg' =
         (case map_of kvs (u ''profiles'') of None \<Rightarrow> profiles (config s) | Some v \<Rightarrow> v)
     \<and> consent_acknowledged cfg' =
         (case map_of kvs (u ''consent_acknowledged'') of
            None \<Rightarrow> consent_acknowledged (config s) | Some v \<Rightarrow> truthy v)
     \<and> api_key cfg' = api_key (config s)
     \<and> organization cfg' = organization (config s)
     \<and> host cfg' = host (config s)
     \<and> port cfg' = port (config s)
     \<and> tls_enabled cfg' = tls_enabled (config s)
     \<and> (save E cfg' = Inr () \<longrightarrow> r = write_json (JObj [(u ''status'', JStr (u ''ok''))]) HTTP_OK)
     \<and> (\<forall>x. kvs = [(u ''default_model'', JStr x)] \<longrightarrow> cfg' = (config s)\<lparr>default_model := x\<rparr>)"
proof -
  let ?c = "patched_config E kvs (config s)"
  let ?r = "fst (do_POST E req s)"
  have 1: "do_POST E req s = (?r, s\<lparr>config := ?c\<rparr>, [?c], [])"
    by (simp add: do_POST_config[OF assms(1)] post_config_obj[OF assms(2)] split: sum.splits)
  have 2: "save E ?c = Inr () \<longrightarrow> ?r = write_json (JObj [(u ''status'', JStr (u ''ok''))]) HTTP_OK"
    by (simp add: do_POST_config[OF assms(1)] post_config_obj[OF assms(2)])
  have 3: "\<forall>x. kvs = [(u ''default_model'', JStr x)] \<longrightarrow> ?c = (config s)\<lparr>default_model := x\<rparr>"
    by (simp add: patched_config_model_only)
  show ?thesis
    apply (rule exI[of _ ?c])
    apply (rule exI[of _ ?r])
    using 1 2 3 by (simp only: patched_config_fields)
qed


lemma read_json_not_json:
  assumes "request_data E req = Inr data" and "utf8_decode data = Some txt"
    and "json_loads E txt = Inl e" and "exn_cls e = JSONDecodeError"
  shows "read_json E req = Inl (Exn ValueError (Some (u ''Invalid JSON payload'')))"
  using assms by (simp add: read_json_def)

lemma read_json_not_utf8:
  assumes "request_data E req = Inr data" and "utf8_decode data = None"
  shows "read_json E req = Inl (Exn UnicodeDecodeError None)"
  using assms by (simp add: read_json_def)

lemma post_config_status:
  "status (fst (post_config E req s)) = HTTP_OK
   \<or> status (fst (post_config E req s)) = HTTP_BAD_REQUEST"
  by (simp add: post_config_def write_error_def write_json_def split: sum.splits)

text \<open>
  C6, amended. A \<open>/config\<close> request that \<open>_read_json\<close> cannot read is answered with
  status 400 and the error, the service unchanged and nothing saved; that is the case
  when \<open>json.loads\<close> raises \<open>JSONDecodeError\<close> on the body (the error is then
  \<open>ValueError("Invalid JSON payload")\<close>) and when the body is not UTF-8. A body that
  is a JSON object is accepted whatever the types of its values: when \<open>save\<close> returns,
  the answer is status 200 and the patched configuration is kept. Every \<open>/config\<close>
  request gets a response, with status 200 or 400.
\<close>

theorem config_malformed:
  assumes "req_path req = ''/config''"
  shows "(\<forall>e. read_json E req = Inl e \<longrightarrow>
            do_POST E req s = (write_error e HTTP_BAD_REQUEST, s, [], []))
       \<and> (\<forall>data txt e. request_data E req = Inr data \<and> utf8_decode data = Some txt
              \<and> json_loads E txt = Inl e \<and> exn_cls e = JSONDecodeError
            \<longrightarrow> do_POST E req s =
                 (write_error (Exn ValueError (Some (u ''Invalid JSON payload''))) HTTP_BAD_REQUEST,
                  s, [], []))
       \<and> (\<forall>data. request_data E req = Inr data \<and> utf8_decode data = None
            \<longrightarrow> do_POST E req s =
                 (write_error (Exn UnicodeDecodeError None) HTTP_BAD_REQUEST, s, [], []))
       \<and> (\<forall>kvs. read_json E req = Inr (JObj kvs)
              \<and> save E (patched_config E kvs (config s)) = Inr ()
            \<longrightarrow> do_POST E req s =
                 (write_json (JObj [(u ''status'', JStr (u ''ok''))]) HTTP_OK,
                  s\<lparr>config := patched_config E kvs (config s)\<rparr>,
                  [patched_config E kvs (config s)], []))
       \<and> (status (fst (do_POST E req s)) = HTTP_OK
            \<or> status (fst (do_POST E req s)) = HTTP_BAD_REQUEST)"
proof -
  have 1: "do_POST E req s = (write_error e HTTP_BAD_REQUEST, s, [], [])"
    if "read_json E req = Inl e" for e
    by (simp add: do_POST_config[OF assms] post_config_unreadable[OF that])
  have 2: "\<forall>data txt e. request_data E req = Inr data \<and> utf8_decode data = Some txt
              \<and> json_loads E txt = Inl e \<and> exn_cls e = JSONDecodeError
            \<longrightarrow> do_POST E req s =
                 (write_error (Exn ValueError (Some (u ''Invalid JSON payload''))) HTTP_BAD_REQUEST,
                  s, [], [])"
    using 1 read_json_not_json[of E req] by blast
  have 3: "\<forall>data. request_data E req = Inr data \<and> utf8_decode data = None
            \<longrightarrow> do_POST E req s =
                 (write_error (Exn UnicodeDecodeError None) HTTP_BAD_REQUEST, s, [], [])"
    using 1 read_json_not_utf8[of E req] by blast
  have 4: "\<forall>kvs. read_json E req = Inr (JObj kvs)
              \<and> save E (patched_config E kvs (config s)) = Inr ()
            \<longrightarrow> do_POST E req s =
                 (write_json (JObj [(u ''status'', JStr (u ''ok''))]) HTTP_OK,
                  s\<lparr>config := patched_config E kvs (config s)\<rparr>,
                  [patched_config E kvs (config s)], [])"
    by (simp add: do_POST_config[OF assms] post_config_obj)
  have 5: "status (fst (do_POST E req s)) = HTTP_OK
            \<or> status (fst (do_POST E req s)) = HTTP_BAD_REQUEST"
    using post_config_status[of E req s]
    by (cases "post_config E req s") (simp add: do_POST_config[OF assms])
  from 1 have 0: "\<forall>e. read_json E req = Inl e \<longrightarrow>
            do_POST E req s = (write_error e HTTP_BAD_REQUEST, s, [], [])" by blast
  from 0 2 3 4 5 show ?thesis by (intro conjI)
qed

lemma py_int_22: "py_int n ''22'' = Inr 22"
  by (simp add: py_int_def Let_def int_space_def is_digit_def digit_val_def digits_value_def
        invalid_literal_def)

lemma py_int_15: "py_int n ''15'' = Inr 15"
  by (simp add: py_int_def Let_def int_space_def is_digit_def digit_val_def digits_value_def
        invalid_literal_def)

lemma py_int_16: "py_int n ''16'' = Inr 16"
  by (simp add: py_int_def Let_def int_space_def is_digit_def digit_val_def digits_value_def
        invalid_literal_def)

lemma read_json_model_patch:
  "read_json (fake_env up (Inr model_patch) opened) model_patch_request = Inr model_patch"
  by (simp add: read_json_def request_data_def model_patch_request_def py_int_22 rfile_read_def
        fake_env_def)

lemma read_json_profiles_patch:
  "read_json (fake_env up (Inr profiles_patch) opened) profiles_patch_request = Inr profiles_patch"
  by (simp add: read_json_def request_data_def profiles_patch_request_def py_int_15 rfile_read_def
        fake_env_def)

lemma read_json_broken:
  "read_json (fake_env up (Inl (Exn JSONDecodeError None)) opened) broken_request
     = Inl (Exn ValueError (Some (u ''Invalid JSON payload'')))"
  by (simp add: read_json_def request_data_def broken_request_def py_int_16 rfile_read_def
        fake_env_def)

lemma encode_secret_sk_test: "encode_secret (Some (u ''sk-test'')) = Inr (Some (u ''c2stdGVzdA==''))"
  by code_simp

lemma api_key_ready_service: "api_key (config ready_service) = Some (u ''sk-test'')"
  by (simp add: ready_service_def GPTService_init_def ServiceConfig_init_def)

lemma save_fake_env:
  assumes "api_key cfg = Some (u ''sk-test'')"
  shows "save (fake_env up parsed None) cfg = Inr ()"
    and "save (fake_env up parsed (Some e)) cfg = Inl e"
  using assms by (simp_all add: save_def fake_env_def to_json_def encode_secret_sk_test)

text \<open>The patch \<open>{"default_model": "x"}\<close> on the ready service.\<close>

theorem config_patch_frame_witness:
  "do_POST (fake_env (Inl (Exn RequestException None)) (Inr model_patch) None)
       model_patch_request ready_service
     = (write_json (JObj [(u ''status'', JStr (u ''ok''))]) HTTP_OK,
        ready_service\<lparr>config := (config ready_service)\<lparr>default_model := u ''x''\<rparr>\<rparr>,
        [(config ready_service)\<lparr>default_model := u ''x''\<rparr>], [])"
proof -
  let ?E = "fake_env (Inl (Exn RequestException None)) (Inr model_patch) None"
  have p: "req_path model_patch_request = ''/config''" by (simp add: model_patch_request_def)
  have r: "read_json ?E model_patch_request = Inr (JObj [(u ''default_model'', JStr (u ''x''))])"
    using read_json_model_patch by (simp add: model_patch_def)
  from config_patch_frame[OF p r, of ready_service]
  obtain cfg' rsp where
    a: "do_POST ?E model_patch_request ready_service
          = (rsp, ready_service\<lparr>config := cfg'\<rparr>, [cfg'], [])"
    and b: "save ?E cfg' = Inr () \<longrightarrow> rsp = write_json (JObj [(u ''status'', JStr (u ''ok''))]) HTTP_OK"
    and c: "\<forall>x. [(u ''default_model'', JStr (u ''x''))] = [(u ''default_model'', JStr x)]
              \<longrightarrow> cfg' = (config ready_service)\<lparr>default_model := x\<rparr>"
    by blast
  from c have c': "cfg' = (config ready_service)\<lparr>default_model := u ''x''\<rparr>" by blast
  have "save ?E cfg' = Inr ()"
    by (rule save_fake_env) (simp add: c' api_key_ready_service)
  with a b c' show ?thesis by simp
qed



text \<open>A body that is cut off after the first key.\<close>

theorem config_malformed_witness:
  "do_POST (fake_env (Inl (Exn RequestException None)) (Inl (Exn JSONDecodeError None)) None)
       broken_request ready_service
     = (write_error (Exn ValueError (Some (u ''Invalid JSON payload''))) HTTP_BAD_REQUEST,
        ready_service, [], [])"
proof -
  let ?E = "fake_env (Inl (Exn RequestException None)) (Inl (Exn JSONDecodeError None)) None"
  have p: "req_path broken_request = ''/config''" by (simp add: broken_request_def)
  from config_malformed[OF p, of ?E ready_service] read_json_broken[of _ None]
  show ?thesis by blast
qed

text \<open>
  C6 as stated does not hold: the body \<open>{"profiles": 7}\<close> gives \<open>profiles\<close> a number
  where a mapping of profiles belongs, and the request is answered with status 200 and
  the number stored.
\<close>

theorem config_accepts_wrong_type:
  "read_json (fake_env (Inl (Exn RequestException None)) (Inr profiles_patch) None)
       profiles_patch_request = Inr (JObj [(u ''profiles'', JInt 7)])
   \<and> status (fst (do_POST (fake_env (Inl (Exn RequestException None)) (Inr profiles_patch) None)
                      profiles_patch_request ready_service)) = 200
   \<and> profiles (config (fst (snd
         (do_POST (fake_env (Inl (Exn RequestException None)) (Inr profiles_patch) None)
            profiles_patch_request ready_service)))) = JInt 7"
proof -
  let ?E = "fake_env (Inl (Exn RequestException None)) (Inr profiles_patch) None"
  have p: "req_path profiles_patch_request = ''/config''" by (simp add: profiles_patch_request_def)
  have r: "read_json ?E profiles_patch_request = Inr (JObj [(u ''profiles'', JInt 7)])"
    using read_json_profiles_patch by (simp add: profiles_patch_def)
  have k: "api_key (patched_config ?E [(u ''profiles'', JInt 7)] (config ready_service))
           = Some (u ''sk-test'')"
    by (simp add: patched_config_fields api_key_ready_service)
  have "do_POST ?E profiles_patch_request ready_service
        = (write_json (JObj [(u ''status'', JStr (u ''ok''))]) HTTP_OK,
           ready_service\<lparr>config := patched_config ?E [(u ''profiles'', JInt 7)] (config ready_service)\<rparr>,
           [patched_config ?E [(u ''profiles'', JInt 7)] (config ready_service)], [])"
    by (simp add: do_POST_config[OF p] post_config_obj[OF r] save_fake_env(1)[OF k])
  then show ?thesis
    using r by (simp add: write_json_def HTTP_OK_def patched_config_fields u_def)
qed

section \<open>The rate-limit snapshot on an example\<close>

lemma header_value_noisy:
  "header_value ''x-ratelimit-remaining-requests'' noisy_headers = Some ''many''"
  "header_value ''x-ratelimit-remaining-tokens'' noisy_headers = Some ''1000''"
  "header_value ''x-ratelimit-reset-requests'' noisy_headers = Some ''1s''"
  by code_simp+

lemma py_int_many: "py_int n ''many'' = Inl invalid_literal"
  by (simp add: py_int_def Let_def int_space_def is_digit_def)

text \<open>
  \<open>update_rate_limit\<close> on the header map of the example: the value \<open>many\<close> and the
  reset time \<open>1s\<close> are no numbers, the names match in any case, \<open>Content-Type\<close> is
  ignored.
\<close>

theorem update_rate_limit_total_witness:
  "update_rate_limit (fake_env (Inl (Exn RequestException None)) (Inr JNull) None)
       noisy_headers (JStr (u ''gpt-4o'')) used_service
     = Inr (used_service\<lparr>rate_limit :=
         \<lparr>remaining_requests = None, remaining_tokens = Some 1000, reset_timestamp = None,
          model = Some (JStr (u ''gpt-4o''))\<rparr>\<rparr>)"
proof -
  let ?E = "fake_env (Inl (Exn RequestException None)) (Inr JNull) None"
  from update_rate_limit_total[of ?E noisy_headers "JStr (u ''gpt-4o'')" used_service]
  obtain rl where
    a: "update_rate_limit ?E noisy_headers (JStr (u ''gpt-4o'')) used_service
          = Inr (used_service\<lparr>rate_limit := rl\<rparr>)"
    and m: "model rl = Some (JStr (u ''gpt-4o''))"
    and r: "remaining_requests rl =
         (case header_value ''x-ratelimit-remaining-requests'' noisy_headers of
            None \<Rightarrow> None
          | Some v \<Rightarrow> (case py_int (int_max_str_digits ?E) v of Inl e \<Rightarrow> None | Inr n \<Rightarrow> Some n))"
    and t: "remaining_tokens rl =
         (case header_value ''x-ratelimit-remaining-tokens'' noisy_headers of
            None \<Rightarrow> None
          | Some v \<Rightarrow> (case py_int (int_max_str_digits ?E) v of Inl e \<Rightarrow> None | Inr n \<Rightarrow> Some n))"
    and f: "reset_timestamp rl =
         (case header_value ''x-ratelimit-reset-requests'' noisy_headers of
            None \<Rightarrow> None
          | Some v \<Rightarrow> (case py_float ?E v of None \<Rightarrow> None | Some f \<Rightarrow> Some (time_plus ?E f)))"
    by blast
  have r': "remaining_requests rl = None"
    by (simp add: r header_value_noisy py_int_many)
  have t': "remaining_tokens rl = Some 1000"
    by (simp add: t header_value_noisy py_int_1000)
  have f': "reset_timestamp rl = None"
    by (simp add: f header_value_noisy fake_env_def)
  have "rl = \<lparr>remaining_requests = None, remaining_tokens = Some 1000, reset_timestamp = None,
          model = Some (JStr (u ''gpt-4o''))\<rparr>"
    using m r' t' f' by (cases rl) simp
  with a show ?thesis by simp
qed

end
